theory Spec2Isabelle
  imports Complex_Main
begin

section \<open>memAlpha: the memory storage engine\<close>

text \<open>
  A shallow embedding of \<^verbatim>\<open>src/memory_store.py\<close> and \<^verbatim>\<open>src/models.py\<close>.
  The engine's collaborators are libraries, not code of the repository: the embedding
  provider, \<^verbatim>\<open>json\<close>, \<^verbatim>\<open>datetime\<close>, \<^verbatim>\<open>uuid\<close> and the ChromaDB client. The pure
  library functions are fields of an environment record; the identifier drawn by
  \<^verbatim>\<open>uuid.uuid4()\<close> and the instant read by \<^verbatim>\<open>datetime.now()\<close> are arguments of the
  operation that draws them; the ChromaDB client is an explicit store threaded through
  every operation. A Python string is a list of characters (code points below 256).
\<close>

subsection \<open>Errors\<close>

datatype error =
    ValidationError
  | EmbeddingError
  | StorageError
  | KeyError string
  | JSONDecodeError
  | ValueError
  | TypeError
  | ZeroDivisionError

subsection \<open>The record model (\<^verbatim>\<open>src/models.py\<close>)\<close>

text \<open>An instant is a number of microseconds; an embedding is a list of numbers (Python
  floats are read as reals); custom metadata is a string-keyed JSON object, kept as an
  association list.\<close>

type_synonym datetime = nat
type_synonym vector = "real list"

datatype json =
    JNull
  | JBool bool
  | JInt int
  | JStr string
  | JList "json list"
  | JDict "(string \<times> json) list"

type_synonym metadata = "(string \<times> json) list"

record memory_create =
  mc_project_id :: string
  mc_agent_id :: string
  mc_content :: string
  mc_metadata :: metadata

record memory_update =
  mu_content :: "string option"
  mu_metadata :: "metadata option"

record memory =
  memory_id :: string
  project_id :: string
  agent_id :: string
  content :: string
  metadata :: metadata
  embedding_provider :: string
  embedding_model :: string
  created_at :: datetime
  updated_at :: datetime

record memory_metadata =
  mm_memory_id :: string
  mm_project_id :: string
  mm_agent_id :: string
  mm_metadata :: metadata
  mm_embedding_provider :: string
  mm_embedding_model :: string
  mm_created_at :: datetime
  mm_updated_at :: datetime

record search_result =
  sr_memory :: memory
  similarity_score :: real

text \<open>\<^verbatim>\<open>str.isspace\<close> on the code points below 256, and \<^verbatim>\<open>str.strip()\<close>.\<close>

definition is_space :: "char \<Rightarrow> bool" where
  "is_space c =
     (let n = (of_char c :: nat) in
        (9 \<le> n \<and> n \<le> 13) \<or> (28 \<le> n \<and> n \<le> 32) \<or> n = 133 \<or> n = 160)"

definition strip :: "string \<Rightarrow> string" where
  "strip s = rev (dropWhile is_space (rev (dropWhile is_space s)))"

text \<open>The validator of both request models: \<^verbatim>\<open>not v or not v.strip()\<close>.\<close>

definition blank :: "string \<Rightarrow> bool" where
  "blank v = (v = [] \<or> strip v = [])"

text \<open>\<^verbatim>\<open>MemoryCreate(project_id=..., agent_id=..., content=..., metadata=...)\<close>. An
  argument that is not passed is \<open>None\<close>. The three strings are required and have
  \<^verbatim>\<open>min_length=1\<close>; \<^verbatim>\<open>content_not_empty\<close> then rejects blank content; metadata
  defaults to the empty dict.\<close>

definition MemoryCreate ::
  "string option \<Rightarrow> string option \<Rightarrow> string option \<Rightarrow> metadata option \<Rightarrow> error + memory_create"
where
  "MemoryCreate pid aid cont md =
     (case pid of None \<Rightarrow> Inl ValidationError | Some p \<Rightarrow>
      case aid of None \<Rightarrow> Inl ValidationError | Some a \<Rightarrow>
      case cont of None \<Rightarrow> Inl ValidationError | Some c \<Rightarrow>
        if length p < 1 \<or> length a < 1 \<or> length c < 1 then Inl ValidationError
        else if blank c then Inl ValidationError
        else Inr \<lparr>mc_project_id = p, mc_agent_id = a, mc_content = c,
                  mc_metadata = (case md of None \<Rightarrow> [] | Some m \<Rightarrow> m)\<rparr>)"

text \<open>\<^verbatim>\<open>MemoryUpdate(content=..., metadata=...)\<close>: both optional; content, when given,
  has \<^verbatim>\<open>min_length=1\<close> and must not be blank.\<close>

definition MemoryUpdate :: "string option \<Rightarrow> metadata option \<Rightarrow> error + memory_update" where
  "MemoryUpdate cont md =
     (case cont of
        None \<Rightarrow> Inr \<lparr>mu_content = None, mu_metadata = md\<rparr>
      | Some c \<Rightarrow>
          if length c < 1 then Inl ValidationError
          else if blank c then Inl ValidationError
          else Inr \<lparr>mu_content = Some c, mu_metadata = md\<rparr>)"

text \<open>\<^verbatim>\<open>SearchResult(memory=..., similarity_score=...)\<close> with \<^verbatim>\<open>ge=0.0, le=1.0\<close>.\<close>

definition SearchResult :: "memory \<Rightarrow> real \<Rightarrow> error + search_result" where
  "SearchResult m s =
     (if 0 \<le> s \<and> s \<le> 1 then Inr \<lparr>sr_memory = m, similarity_score = s\<rparr>
      else Inl ValidationError)"

subsection \<open>The environment\<close>

text \<open>The embedding provider (\<^verbatim>\<open>provider_name\<close>, \<^verbatim>\<open>model_name\<close>, \<^verbatim>\<open>dimension\<close>,
  \<^verbatim>\<open>embed\<close>, which fails with \<open>None\<close>), \<^verbatim>\<open>json.dumps\<close> and \<^verbatim>\<open>json.loads\<close>,
  \<^verbatim>\<open>datetime.isoformat\<close> and \<^verbatim>\<open>datetime.fromisoformat\<close>, and the distance of the
  vector index.\<close>

record env =
  provider_name :: string
  model_name :: string
  dimension :: nat
  embed_fn :: "string \<Rightarrow> vector option"
  json_dumps :: "metadata \<Rightarrow> string"
  json_loads :: "string \<Rightarrow> error + metadata"
  isoformat :: "datetime \<Rightarrow> string"
  fromisoformat :: "string \<Rightarrow> error + datetime"
  distance :: "vector \<Rightarrow> vector \<Rightarrow> real"

subsection \<open>The ChromaDB client\<close>

text \<open>
  A collection has its descriptive metadata and its records in insertion order; a record
  has an id, a vector, a document and a string-valued metadata dict. The client maps
  collection names to collections. The store also keeps the texts passed to the
  provider's \<^verbatim>\<open>embed\<close>, oldest first, and a fault script: every call into ChromaDB
  takes the next flag of the script and raises when it is \<open>True\<close>; an exhausted
  script means no further fault.
\<close>

record entry =
  e_id :: string
  e_embedding :: vector
  e_document :: string
  e_metadata :: "(string \<times> string) list"

record collection_metadata =
  cm_project_id :: string
  cm_agent_id :: string
  cm_embedding_provider :: string
  cm_embedding_model :: string
  cm_embedding_dimension :: nat

record collection =
  c_metadata :: collection_metadata
  c_entries :: "entry list"

record world =
  collections :: "string \<rightharpoonup> collection"
  embed_log :: "string list"
  faults :: "bool list"

definition next_fault :: "world \<Rightarrow> bool \<times> world" where
  "next_fault w = (case faults w of [] \<Rightarrow> (False, w) | f # fs \<Rightarrow> (f, w\<lparr>faults := fs\<rparr>))"

text \<open>The records of a named collection; none when the collection does not exist.\<close>

definition entries_of :: "world \<Rightarrow> string \<Rightarrow> entry list" where
  "entries_of w name = (case collections w name of None \<Rightarrow> [] | Some c \<Rightarrow> c_entries c)"

definition map_entries :: "string \<Rightarrow> (entry list \<Rightarrow> entry list) \<Rightarrow> world \<Rightarrow> world" where
  "map_entries name f w =
     w\<lparr>collections := (collections w)
          (name := map_option (\<lambda>c. c\<lparr>c_entries := f (c_entries c)\<rparr>) (collections w name))\<rparr>"

text \<open>\<^verbatim>\<open>client.get_or_create_collection(name, metadata)\<close>: an existing collection is
  returned as it is, a missing one is created empty. The handle returned is the name.\<close>

definition chroma_get_or_create_collection ::
  "string \<Rightarrow> collection_metadata \<Rightarrow> world \<Rightarrow> (error + string) \<times> world"
where
  "chroma_get_or_create_collection name cm w =
     (case next_fault w of
        (True, w1) \<Rightarrow> (Inl StorageError, w1)
      | (False, w1) \<Rightarrow>
          (case collections w1 name of
             Some c \<Rightarrow> (Inr name, w1)
           | None \<Rightarrow>
               (Inr name,
                w1\<lparr>collections := (collections w1)(name \<mapsto> \<lparr>c_metadata = cm, c_entries = []\<rparr>)\<rparr>)))"

text \<open>\<^verbatim>\<open>collection.add\<close> of one record: appended; an id already present is left as
  it is (ChromaDB ignores the insert of an existing id).\<close>

definition chroma_add :: "string \<Rightarrow> entry \<Rightarrow> world \<Rightarrow> (error + unit) \<times> world" where
  "chroma_add name e w =
     (case next_fault w of
        (True, w1) \<Rightarrow> (Inl StorageError, w1)
      | (False, w1) \<Rightarrow>
          (Inr (),
           map_entries name
             (\<lambda>es. if e_id e \<in> set (map e_id es) then es else es @ [e]) w1))"

text \<open>\<^verbatim>\<open>collection.get(ids=[id], ...)\<close>: the records with that id.\<close>

definition chroma_get :: "string \<Rightarrow> string \<Rightarrow> world \<Rightarrow> (error + entry list) \<times> world" where
  "chroma_get name mid w =
     (case next_fault w of
        (True, w1) \<Rightarrow> (Inl StorageError, w1)
      | (False, w1) \<Rightarrow> (Inr (filter (\<lambda>e. e_id e = mid) (entries_of w1 name)), w1))"

text \<open>\<^verbatim>\<open>collection.get(include=["metadatas"])\<close>: every record, in the store's order.\<close>

definition chroma_get_all :: "string \<Rightarrow> world \<Rightarrow> (error + entry list) \<times> world" where
  "chroma_get_all name w =
     (case next_fault w of
        (True, w1) \<Rightarrow> (Inl StorageError, w1)
      | (False, w1) \<Rightarrow> (Inr (entries_of w1 name), w1))"

text \<open>A metadata filter is a list of field equalities that must all hold (the part of
  ChromaDB's filter language that is modelled).\<close>

type_synonym where_clause = "(string \<times> string) list"

definition where_matches :: "where_clause \<Rightarrow> (string \<times> string) list \<Rightarrow> bool" where
  "where_matches wh md = list_all (\<lambda>(k, v). map_of md k = Some v) wh"

text \<open>\<^verbatim>\<open>collection.query(query_embeddings=[q], n_results=k, where=...)\<close>: ChromaDB
  validates \<^verbatim>\<open>n_results\<close> first and raises for a value that is not positive; the
  answer is the \<open>k\<close> records nearest to \<open>q\<close> among those the filter admits, nearest
  first, each with its distance.\<close>

definition chroma_query ::
  "(vector \<Rightarrow> vector \<Rightarrow> real) \<Rightarrow> string \<Rightarrow> vector \<Rightarrow> int \<Rightarrow> where_clause option \<Rightarrow> world
     \<Rightarrow> (error + (entry \<times> real) list) \<times> world"
where
  "chroma_query metric name q n_results wh w =
     (if n_results \<le> 0 then (Inl TypeError, w)
      else
        (case next_fault w of
           (True, w1) \<Rightarrow> (Inl StorageError, w1)
         | (False, w1) \<Rightarrow>
             (let admitted =
                    filter (\<lambda>e. case wh of None \<Rightarrow> True | Some f \<Rightarrow> where_matches f (e_metadata e))
                      (entries_of w1 name);
                  ranked = sort_key snd (map (\<lambda>e. (e, metric q (e_embedding e))) admitted)
              in (Inr (take (nat n_results) ranked), w1))))"

text \<open>\<^verbatim>\<open>collection.update(ids=[id], embeddings=?, documents=[d], metadatas=[m])\<close>: the
  record with that id gets the new document, the new vector when one is passed, and the
  given metadata keys (keys not given keep their value); an unknown id changes nothing.\<close>

definition merge_metadata ::
  "(string \<times> string) list \<Rightarrow> (string \<times> string) list \<Rightarrow> (string \<times> string) list"
where
  "merge_metadata new old = new @ filter (\<lambda>(k, v). k \<notin> set (map fst new)) old"

definition chroma_update ::
  "string \<Rightarrow> string \<Rightarrow> vector option \<Rightarrow> string \<Rightarrow> (string \<times> string) list \<Rightarrow> world
     \<Rightarrow> (error + unit) \<times> world"
where
  "chroma_update name mid emb doc md w =
     (case next_fault w of
        (True, w1) \<Rightarrow> (Inl StorageError, w1)
      | (False, w1) \<Rightarrow>
          (Inr (),
           map_entries name
             (map (\<lambda>e. if e_id e = mid
                        then e\<lparr>e_embedding := (case emb of None \<Rightarrow> e_embedding e | Some v \<Rightarrow> v),
                               e_document := doc,
                               e_metadata := merge_metadata md (e_metadata e)\<rparr>
                        else e)) w1))"

text \<open>\<^verbatim>\<open>collection.delete(ids=[id])\<close>: the record with that id is removed; an unknown
  id is not an error.\<close>

definition chroma_delete :: "string \<Rightarrow> string \<Rightarrow> world \<Rightarrow> (error + unit) \<times> world" where
  "chroma_delete name mid w =
     (case next_fault w of
        (True, w1) \<Rightarrow> (Inl StorageError, w1)
      | (False, w1) \<Rightarrow> (Inr (), map_entries name (filter (\<lambda>e. e_id e \<noteq> mid)) w1))"

subsection \<open>Partition names\<close>

text \<open>The character class \<^verbatim>\<open>[a-zA-Z0-9_-]\<close> of \<^verbatim>\<open>_get_collection_name\<close>.\<close>

definition safe_char :: "char \<Rightarrow> bool" where
  "safe_char c =
     (let n = (of_char c :: nat) in
        (97 \<le> n \<and> n \<le> 122) \<or> (65 \<le> n \<and> n \<le> 90) \<or> (48 \<le> n \<and> n \<le> 57)
        \<or> c = CHR ''_'' \<or> c = CHR ''-'')"

text \<open>\<^verbatim>\<open>re.sub(r'[^a-zA-Z0-9_-]', '_', s)\<close>: every character outside the class becomes
  an underscore.\<close>

definition sanitize :: "string \<Rightarrow> string" where
  "sanitize s = map (\<lambda>c. if safe_char c then c else CHR ''_'') s"

text \<open>\<^verbatim>\<open>MemoryStore._get_collection_name\<close>:
  \<^verbatim>\<open>f"p_{safe_project}_a_{safe_agent}_emb_{provider}"\<close>.\<close>

definition get_collection_name :: "env \<Rightarrow> string \<Rightarrow> string \<Rightarrow> string" where
  "get_collection_name env pid aid =
     (let safe_project = sanitize pid;
          safe_agent = sanitize aid;
          provider = provider_name env
      in ''p_'' @ safe_project @ ''_a_'' @ safe_agent @ ''_emb_'' @ provider)"

text \<open>\<^verbatim>\<open>MemoryStore._get_or_create_collection\<close>.\<close>

definition get_or_create_collection ::
  "env \<Rightarrow> string \<Rightarrow> string \<Rightarrow> world \<Rightarrow> (error + string) \<times> world"
where
  "get_or_create_collection env pid aid w =
     (let collection_name = get_collection_name env pid aid;
          cm = \<lparr>cm_project_id = pid, cm_agent_id = aid,
                cm_embedding_provider = provider_name env,
                cm_embedding_model = model_name env,
                cm_embedding_dimension = dimension env\<rparr>
      in chroma_get_or_create_collection collection_name cm w)"

subsection \<open>Serialization of the metadata envelope\<close>

text \<open>\<^verbatim>\<open>_serialize_metadata\<close> and \<^verbatim>\<open>_deserialize_metadata\<close>; the latter answers an
  empty string with the empty dict without parsing it.\<close>

definition serialize_metadata :: "env \<Rightarrow> metadata \<Rightarrow> string" where
  "serialize_metadata env md = json_dumps env md"

definition deserialize_metadata :: "env \<Rightarrow> string \<Rightarrow> error + metadata" where
  "deserialize_metadata env metadata_str =
     (if metadata_str = [] then Inr [] else json_loads env metadata_str)"

text \<open>\<^verbatim>\<open>metadata['key']\<close> raises \<^verbatim>\<open>KeyError\<close> on a missing key;
  \<^verbatim>\<open>metadata.get('key', default)\<close> does not.\<close>

definition lookup_key :: "(string \<times> string) list \<Rightarrow> string \<Rightarrow> error + string" where
  "lookup_key md k = (case map_of md k of None \<Rightarrow> Inl (KeyError k) | Some v \<Rightarrow> Inr v)"

definition get_default :: "(string \<times> string) list \<Rightarrow> string \<Rightarrow> string \<Rightarrow> string" where
  "get_default md k d = (case map_of md k of None \<Rightarrow> d | Some v \<Rightarrow> v)"

text \<open>The \<^verbatim>\<open>Memory(...)\<close> built from a stored record, as \<^verbatim>\<open>get_memory\<close> and
  \<^verbatim>\<open>search_memories\<close> do; the keyword arguments are evaluated in the order written.\<close>

definition memory_of_record ::
  "env \<Rightarrow> string \<Rightarrow> string \<Rightarrow> (string \<times> string) list \<Rightarrow> error + memory"
where
  "memory_of_record env mid doc md =
     (case lookup_key md ''project_id'' of Inl e \<Rightarrow> Inl e | Inr pid \<Rightarrow>
      case lookup_key md ''agent_id'' of Inl e \<Rightarrow> Inl e | Inr aid \<Rightarrow>
      case deserialize_metadata env (get_default md ''custom_metadata'' ''{}'') of
        Inl e \<Rightarrow> Inl e | Inr custom \<Rightarrow>
      case lookup_key md ''embedding_provider'' of Inl e \<Rightarrow> Inl e | Inr prov \<Rightarrow>
      case lookup_key md ''embedding_model'' of Inl e \<Rightarrow> Inl e | Inr model \<Rightarrow>
      case lookup_key md ''created_at'' of Inl e \<Rightarrow> Inl e | Inr cs \<Rightarrow>
      case fromisoformat env cs of Inl e \<Rightarrow> Inl e | Inr created \<Rightarrow>
      case lookup_key md ''updated_at'' of Inl e \<Rightarrow> Inl e | Inr us \<Rightarrow>
      case fromisoformat env us of Inl e \<Rightarrow> Inl e | Inr updated \<Rightarrow>
        Inr \<lparr>memory_id = mid, project_id = pid, agent_id = aid, content = doc,
             metadata = custom, embedding_provider = prov, embedding_model = model,
             created_at = created, updated_at = updated\<rparr>)"

text \<open>The \<^verbatim>\<open>MemoryMetadata(...)\<close> built by \<^verbatim>\<open>list_memories\<close>.\<close>

definition memory_metadata_of_record ::
  "env \<Rightarrow> string \<Rightarrow> (string \<times> string) list \<Rightarrow> error + memory_metadata"
where
  "memory_metadata_of_record env mid md =
     (case lookup_key md ''project_id'' of Inl e \<Rightarrow> Inl e | Inr pid \<Rightarrow>
      case lookup_key md ''agent_id'' of Inl e \<Rightarrow> Inl e | Inr aid \<Rightarrow>
      case deserialize_metadata env (get_default md ''custom_metadata'' ''{}'') of
        Inl e \<Rightarrow> Inl e | Inr custom \<Rightarrow>
      case lookup_key md ''embedding_provider'' of Inl e \<Rightarrow> Inl e | Inr prov \<Rightarrow>
      case lookup_key md ''embedding_model'' of Inl e \<Rightarrow> Inl e | Inr model \<Rightarrow>
      case lookup_key md ''created_at'' of Inl e \<Rightarrow> Inl e | Inr cs \<Rightarrow>
      case fromisoformat env cs of Inl e \<Rightarrow> Inl e | Inr created \<Rightarrow>
      case lookup_key md ''updated_at'' of Inl e \<Rightarrow> Inl e | Inr us \<Rightarrow>
      case fromisoformat env us of Inl e \<Rightarrow> Inl e | Inr updated \<Rightarrow>
        Inr \<lparr>mm_memory_id = mid, mm_project_id = pid, mm_agent_id = aid,
             mm_metadata = custom, mm_embedding_provider = prov,
             mm_embedding_model = model, mm_created_at = created,
             mm_updated_at = updated\<rparr>)"

subsection \<open>The embedding call\<close>

text \<open>\<^verbatim>\<open>self.embedding_provider.embed(text)\<close>: the call is logged, then it returns the
  vector or raises.\<close>

definition embed :: "env \<Rightarrow> string \<Rightarrow> world \<Rightarrow> (error + vector) \<times> world" where
  "embed env text w =
     (let w1 = w\<lparr>embed_log := embed_log w @ [text]\<rparr>
      in case embed_fn env text of
           None \<Rightarrow> (Inl EmbeddingError, w1)
         | Some v \<Rightarrow> (Inr v, w1))"

subsection \<open>The operations of \<^verbatim>\<open>MemoryStore\<close>\<close>

text \<open>\<^verbatim>\<open>store_memory\<close>; \<open>new_id\<close> is what \<^verbatim>\<open>uuid.uuid4()\<close> returns and \<open>now\<close> what
  \<^verbatim>\<open>datetime.now()\<close> returns.\<close>

definition store_memory ::
  "env \<Rightarrow> string \<Rightarrow> datetime \<Rightarrow> world \<Rightarrow> memory_create \<Rightarrow> (error + memory) \<times> world"
where
  "store_memory env new_id now w memory_create =
     (case get_or_create_collection env (mc_project_id memory_create)
             (mc_agent_id memory_create) w of
        (Inl e, w1) \<Rightarrow> (Inl e, w1)
      | (Inr coll, w1) \<Rightarrow>
     (case embed env (mc_content memory_create) w1 of
        (Inl e, w2) \<Rightarrow> (Inl e, w2)
      | (Inr embedding, w2) \<Rightarrow>
     (let chroma_metadata =
            [(''project_id'', mc_project_id memory_create),
             (''agent_id'', mc_agent_id memory_create),
             (''custom_metadata'', serialize_metadata env (mc_metadata memory_create)),
             (''embedding_provider'', provider_name env),
             (''embedding_model'', model_name env),
             (''created_at'', isoformat env now),
             (''updated_at'', isoformat env now)]
      in case chroma_add coll
                \<lparr>e_id = new_id, e_embedding = embedding,
                 e_document = mc_content memory_create,
                 e_metadata = chroma_metadata\<rparr> w2 of
           (Inl e, w3) \<Rightarrow> (Inl e, w3)
         | (Inr u, w3) \<Rightarrow>
             (Inr \<lparr>memory_id = new_id,
                   project_id = mc_project_id memory_create,
                   agent_id = mc_agent_id memory_create,
                   content = mc_content memory_create,
                   metadata = mc_metadata memory_create,
                   embedding_provider = provider_name env,
                   embedding_model = model_name env,
                   created_at = now, updated_at = now\<rparr>, w3))))"

text \<open>\<^verbatim>\<open>get_memory\<close>: \<open>None\<close> is the not-found signal.\<close>

definition get_memory ::
  "env \<Rightarrow> world \<Rightarrow> string \<Rightarrow> string \<Rightarrow> string \<Rightarrow> (error + memory option) \<times> world"
where
  "get_memory env w pid aid mid =
     (case get_or_create_collection env pid aid w of
        (Inl e, w1) \<Rightarrow> (Inl e, w1)
      | (Inr coll, w1) \<Rightarrow>
     (case chroma_get coll mid w1 of
        (Inl e, w2) \<Rightarrow> (Inl e, w2)
      | (Inr result, w2) \<Rightarrow>
     (case result of
        [] \<Rightarrow> (Inr None, w2)
      | r # rest \<Rightarrow>
          (case memory_of_record env (e_id r) (e_document r) (e_metadata r) of
             Inl e \<Rightarrow> (Inl e, w2)
           | Inr m \<Rightarrow> (Inr (Some m), w2)))))"

text \<open>The loop of \<^verbatim>\<open>search_memories\<close> over the matches: the similarity is computed
  first (a distance of \<open>-1\<close> divides by zero), then the memory is built, then the
  capped score is validated by \<^verbatim>\<open>SearchResult\<close>.\<close>

fun convert_results :: "env \<Rightarrow> (entry \<times> real) list \<Rightarrow> error + search_result list" where
  "convert_results env [] = Inr []"
| "convert_results env ((r, d) # rest) =
     (if 1 + d = 0 then Inl ZeroDivisionError
      else
        (let similarity = 1 / (1 + d)
         in case memory_of_record env (e_id r) (e_document r) (e_metadata r) of
              Inl e \<Rightarrow> Inl e
            | Inr m \<Rightarrow>
                (case SearchResult m (min similarity 1) of
                   Inl e \<Rightarrow> Inl e
                 | Inr sr \<Rightarrow>
                     (case convert_results env rest of
                        Inl e \<Rightarrow> Inl e
                      | Inr srs \<Rightarrow> Inr (sr # srs)))))"

text \<open>\<^verbatim>\<open>search_memories\<close>: an empty filter dict is falsy and passes no filter.\<close>

definition search_memories ::
  "env \<Rightarrow> world \<Rightarrow> string \<Rightarrow> string \<Rightarrow> string \<Rightarrow> int \<Rightarrow> where_clause option
     \<Rightarrow> (error + search_result list) \<times> world"
where
  "search_memories env w pid aid query limit filters =
     (case get_or_create_collection env pid aid w of
        (Inl e, w1) \<Rightarrow> (Inl e, w1)
      | (Inr coll, w1) \<Rightarrow>
     (case embed env query w1 of
        (Inl e, w2) \<Rightarrow> (Inl e, w2)
      | (Inr query_embedding, w2) \<Rightarrow>
     (let wh = (case filters of None \<Rightarrow> None
                | Some f \<Rightarrow> if f = [] then None else Some f)
      in case chroma_query (distance env) coll query_embedding limit wh w2 of
           (Inl e, w3) \<Rightarrow> (Inl e, w3)
         | (Inr results, w3) \<Rightarrow>
             (case convert_results env results of
                Inl e \<Rightarrow> (Inl e, w3)
              | Inr search_results \<Rightarrow> (Inr search_results, w3)))))"

text \<open>\<^verbatim>\<open>update_memory\<close>; \<open>now\<close> is what \<^verbatim>\<open>datetime.now()\<close> returns.\<close>

definition update_memory ::
  "env \<Rightarrow> datetime \<Rightarrow> world \<Rightarrow> string \<Rightarrow> string \<Rightarrow> string \<Rightarrow> memory_update
     \<Rightarrow> (error + memory option) \<times> world"
where
  "update_memory env now w pid aid mid update =
     (case get_memory env w pid aid mid of
        (Inl e, w1) \<Rightarrow> (Inl e, w1)
      | (Inr None, w1) \<Rightarrow> (Inr None, w1)
      | (Inr (Some existing), w1) \<Rightarrow>
     (case get_or_create_collection env pid aid w1 of
        (Inl e, w2) \<Rightarrow> (Inl e, w2)
      | (Inr coll, w2) \<Rightarrow>
     (let new_content = (case mu_content update of Some c \<Rightarrow> c | None \<Rightarrow> content existing);
          new_metadata = (case mu_metadata update of Some m \<Rightarrow> m | None \<Rightarrow> metadata existing);
          chroma_metadata =
            [(''project_id'', pid),
             (''agent_id'', aid),
             (''custom_metadata'', serialize_metadata env new_metadata),
             (''embedding_provider'', embedding_provider existing),
             (''embedding_model'', embedding_model existing),
             (''created_at'', isoformat env (created_at existing)),
             (''updated_at'', isoformat env now)];
          updated =
            \<lparr>memory_id = mid, project_id = pid, agent_id = aid,
             content = new_content, metadata = new_metadata,
             embedding_provider = embedding_provider existing,
             embedding_model = embedding_model existing,
             created_at = created_at existing, updated_at = now\<rparr>
      in case mu_content update of
           Some c \<Rightarrow>
             (case embed env new_content w2 of
                (Inl e, w3) \<Rightarrow> (Inl e, w3)
              | (Inr new_embedding, w3) \<Rightarrow>
                  (case chroma_update coll mid (Some new_embedding) new_content
                          chroma_metadata w3 of
                     (Inl e, w4) \<Rightarrow> (Inl e, w4)
                   | (Inr u, w4) \<Rightarrow> (Inr (Some updated), w4)))
         | None \<Rightarrow>
             (case chroma_update coll mid None new_content chroma_metadata w2 of
                (Inl e, w3) \<Rightarrow> (Inl e, w3)
              | (Inr u, w3) \<Rightarrow> (Inr (Some updated), w3)))))"

text \<open>\<^verbatim>\<open>delete_memory\<close>: the partition is resolved before the \<^verbatim>\<open>try\<close>; only the
  \<^verbatim>\<open>collection.delete\<close> call is inside it.\<close>

definition delete_memory ::
  "env \<Rightarrow> world \<Rightarrow> string \<Rightarrow> string \<Rightarrow> string \<Rightarrow> (error + bool) \<times> world"
where
  "delete_memory env w pid aid mid =
     (case get_or_create_collection env pid aid w of
        (Inl e, w1) \<Rightarrow> (Inl e, w1)
      | (Inr coll, w1) \<Rightarrow>
          (case chroma_delete coll mid w1 of
             (Inl e, w2) \<Rightarrow> (Inr False, w2)
           | (Inr u, w2) \<Rightarrow> (Inr True, w2)))"

text \<open>A Python slice \<^verbatim>\<open>xs[a:b]\<close> with integer bounds: a negative bound counts from
  the end, and both are clamped to the list.\<close>

definition slice_bound :: "nat \<Rightarrow> int \<Rightarrow> nat" where
  "slice_bound n i = (if i < 0 then nat (max 0 (int n + i)) else min n (nat i))"

definition py_slice :: "'a list \<Rightarrow> int \<Rightarrow> int \<Rightarrow> 'a list" where
  "py_slice xs a b =
     (let lo = slice_bound (length xs) a; hi = slice_bound (length xs) b
      in take (hi - lo) (drop lo xs))"

fun convert_listing :: "env \<Rightarrow> entry list \<Rightarrow> error + memory_metadata list" where
  "convert_listing env [] = Inr []"
| "convert_listing env (r # rest) =
     (case memory_metadata_of_record env (e_id r) (e_metadata r) of
        Inl e \<Rightarrow> Inl e
      | Inr m \<Rightarrow>
          (case convert_listing env rest of
             Inl e \<Rightarrow> Inl e
           | Inr ms \<Rightarrow> Inr (m # ms)))"

text \<open>\<^verbatim>\<open>list_memories\<close>: the filters are accepted and not used.\<close>

definition list_memories ::
  "env \<Rightarrow> world \<Rightarrow> string \<Rightarrow> string \<Rightarrow> int \<Rightarrow> int \<Rightarrow> where_clause option
     \<Rightarrow> (error + memory_metadata list) \<times> world"
where
  "list_memories env w pid aid limit offset filters =
     (case get_or_create_collection env pid aid w of
        (Inl e, w1) \<Rightarrow> (Inl e, w1)
      | (Inr coll, w1) \<Rightarrow>
          (case chroma_get_all coll w1 of
             (Inl e, w2) \<Rightarrow> (Inl e, w2)
           | (Inr result, w2) \<Rightarrow>
               (case convert_listing env (py_slice result offset (offset + limit)) of
                  Inl e \<Rightarrow> (Inl e, w2)
                | Inr memory_metadatas \<Rightarrow> (Inr memory_metadatas, w2))))"

subsection \<open>The tool-call facade (\<^verbatim>\<open>src/server.py\<close>)\<close>

text \<open>The \<^verbatim>\<open>store_memory\<close> and \<^verbatim>\<open>update_memory\<close> branches of \<^verbatim>\<open>call_tool\<close>: the
  request model is built from the argument bag, which validates it, and the engine is
  called with the model. \<^verbatim>\<open>arguments["key"]\<close> raises \<^verbatim>\<open>KeyError\<close> on a missing key,
  \<^verbatim>\<open>arguments.get("key")\<close> gives \<open>None\<close>. An exception ends the call.\<close>

record arguments =
  arg_project_id :: "string option"
  arg_agent_id :: "string option"
  arg_memory_id :: "string option"
  arg_content :: "string option"
  arg_metadata :: "metadata option"

definition call_tool_store_memory ::
  "env \<Rightarrow> string \<Rightarrow> datetime \<Rightarrow> world \<Rightarrow> arguments \<Rightarrow> (error + memory) \<times> world"
where
  "call_tool_store_memory env new_id now w arguments =
     (case arg_project_id arguments of None \<Rightarrow> (Inl (KeyError ''project_id''), w) | Some pid \<Rightarrow>
      case arg_agent_id arguments of None \<Rightarrow> (Inl (KeyError ''agent_id''), w) | Some aid \<Rightarrow>
      case arg_content arguments of None \<Rightarrow> (Inl (KeyError ''content''), w) | Some cont \<Rightarrow>
      case MemoryCreate (Some pid) (Some aid) (Some cont)
             (Some (case arg_metadata arguments of None \<Rightarrow> [] | Some m \<Rightarrow> m)) of
        Inl e \<Rightarrow> (Inl e, w)
      | Inr memory_create \<Rightarrow> store_memory env new_id now w memory_create)"

definition call_tool_update_memory ::
  "env \<Rightarrow> datetime \<Rightarrow> world \<Rightarrow> arguments \<Rightarrow> (error + memory option) \<times> world"
where
  "call_tool_update_memory env now w arguments =
     (case MemoryUpdate (arg_content arguments) (arg_metadata arguments) of
        Inl e \<Rightarrow> (Inl e, w)
      | Inr update \<Rightarrow>
     (case arg_project_id arguments of None \<Rightarrow> (Inl (KeyError ''project_id''), w) | Some pid \<Rightarrow>
      case arg_agent_id arguments of None \<Rightarrow> (Inl (KeyError ''agent_id''), w) | Some aid \<Rightarrow>
      case arg_memory_id arguments of None \<Rightarrow> (Inl (KeyError ''memory_id''), w) | Some mid \<Rightarrow>
        update_memory env now w pid aid mid update))"

subsection \<open>A test double\<close>

text \<open>The concrete collaborators used to run the operations: the provider of the
  repository's unit tests (\<^verbatim>\<open>"local"\<close>, \<^verbatim>\<open>"test-model"\<close>, a fixed vector), a JSON
  codec that knows two documents, instants written in unary, and the squared Euclidean
  distance of the index. \<open>failing_env\<close> has a provider whose \<^verbatim>\<open>embed\<close> raises.\<close>

definition stub_dumps :: "metadata \<Rightarrow> string" where
  "stub_dumps md =
     (if md = [] then ''{}''
      else if md = [(''tags'', JList [JStr ''auth''])] then ''{tags: [auth]}''
      else ''?'')"

definition stub_loads :: "string \<Rightarrow> error + metadata" where
  "stub_loads s =
     (if s = ''{}'' then Inr []
      else if s = ''{tags: [auth]}'' then Inr [(''tags'', JList [JStr ''auth''])]
      else Inl JSONDecodeError)"

definition squared_l2 :: "vector \<Rightarrow> vector \<Rightarrow> real" where
  "squared_l2 u v = sum_list (map (\<lambda>(a, b). (a - b) * (a - b)) (zip u v))"

definition stub_env :: env where
  "stub_env =
     \<lparr>provider_name = ''local'', model_name = ''test-model'', dimension = 384,
      embed_fn = (\<lambda>t. Some [1 / 10, 2 / 10, 3 / 10, 4 / 10]),
      json_dumps = stub_dumps, json_loads = stub_loads,
      isoformat = (\<lambda>t. replicate t CHR ''I''),
      fromisoformat =
        (\<lambda>s. if s = replicate (length s) CHR ''I'' then Inr (length s) else Inl ValueError),
      distance = squared_l2\<rparr>"

definition failing_env :: env where
  "failing_env = stub_env\<lparr>embed_fn := (\<lambda>t. None)\<rparr>"

definition empty_world :: world where
  "empty_world = \<lparr>collections = Map.empty, embed_log = [], faults = []\<rparr>"

definition demo_create :: memory_create where
  "demo_create =
     \<lparr>mc_project_id = ''p1'', mc_agent_id = ''a1'', mc_content = ''Use JWT for auth'',
      mc_metadata = [(''tags'', JList [JStr ''auth''])]\<rparr>"

definition demo_world :: world where
  "demo_world = snd (store_memory stub_env ''id-1'' 7 empty_world demo_create)"

definition demo_memory :: memory where
  "demo_memory =
     \<lparr>memory_id = ''id-1'', project_id = ''p1'', agent_id = ''a1'',
      content = ''Use JWT for auth'', metadata = [(''tags'', JList [JStr ''auth''])],
      embedding_provider = ''local'', embedding_model = ''test-model'',
      created_at = 7, updated_at = 7\<rparr>"

definition demo_result :: search_result where
  "demo_result = \<lparr>sr_memory = demo_memory, similarity_score = 1\<rparr>"

definition demo_tags :: metadata where
  "demo_tags = [(''tags'', JList [JStr ''auth''])]"

definition demo_update_md :: memory_update where
  "demo_update_md = \<lparr>mu_content = None, mu_metadata = Some []\<rparr>"

definition demo_update_content_req :: memory_update where
  "demo_update_content_req = \<lparr>mu_content = Some ''Use OAuth'', mu_metadata = None\<rparr>"

definition blank_arguments :: arguments where
  "blank_arguments =
     \<lparr>arg_project_id = Some ''p1'', arg_agent_id = Some ''a1'', arg_memory_id = Some ''id-1'',
      arg_content = Some ''   '', arg_metadata = None\<rparr>"

definition good_arguments :: arguments where
  "good_arguments =
     \<lparr>arg_project_id = Some ''p1'', arg_agent_id = Some ''a1'', arg_memory_id = Some ''id-1'',
      arg_content = Some ''Use JWT for auth'', arg_metadata = None\<rparr>"

section \<open>Properties\<close>

subsection \<open>The primitives\<close>

lemma next_fault_nil: "faults w = [] \<Longrightarrow> next_fault w = (False, w)"
  by (simp add: next_fault_def)

lemma next_fault_frame:
  "next_fault w = (f, w1) \<Longrightarrow> collections w1 = collections w \<and> embed_log w1 = embed_log w"
  by (auto simp: next_fault_def split: list.splits)

lemma goc_embed_log:
  "get_or_create_collection env p a w = (r, w1) \<Longrightarrow> embed_log w1 = embed_log w"
  by (auto simp: get_or_create_collection_def chroma_get_or_create_collection_def Let_def
        next_fault_def split: list.splits bool.splits option.splits)

lemma goc_entries:
  "get_or_create_collection env p a w = (r, w1) \<Longrightarrow> entries_of w1 n = entries_of w n"
  by (auto simp: get_or_create_collection_def chroma_get_or_create_collection_def Let_def
        next_fault_def entries_of_def split: list.splits bool.splits option.splits if_splits)

lemma goc_result:
  "get_or_create_collection env p a w = (r, w1) \<Longrightarrow>
     r = Inl StorageError \<or> r = Inr (get_collection_name env p a)"
  by (auto simp: get_or_create_collection_def chroma_get_or_create_collection_def Let_def
        next_fault_def split: list.splits bool.splits option.splits)

lemma goc_exists:
  "get_or_create_collection env p a w = (Inr c, w1) \<Longrightarrow>
     collections w1 (get_collection_name env p a) \<noteq> None"
  by (auto simp: get_or_create_collection_def chroma_get_or_create_collection_def Let_def
        next_fault_def split: list.splits bool.splits option.splits)

lemma goc_nofault:
  "faults w = [] \<Longrightarrow> get_or_create_collection env p a w = (r, w1) \<Longrightarrow>
     faults w1 = [] \<and> r = Inr (get_collection_name env p a)"
  by (auto simp: get_or_create_collection_def chroma_get_or_create_collection_def Let_def
        next_fault_def split: list.splits bool.splits option.splits)


lemma embed_result:
  "embed env t w = (r, w1) \<Longrightarrow>
     collections w1 = collections w \<and> faults w1 = faults w \<and>
     embed_log w1 = embed_log w @ [t] \<and>
     r = (case embed_fn env t of None \<Rightarrow> Inl EmbeddingError | Some v \<Rightarrow> Inr v)"
  by (auto simp: embed_def Let_def split: option.splits)

lemma embed_entries: "embed env t w = (r, w1) \<Longrightarrow> entries_of w1 n = entries_of w n"
  by (auto simp: embed_def Let_def entries_of_def split: option.splits)

lemma chroma_get_frame:
  "chroma_get n i w = (r, w1) \<Longrightarrow>
     collections w1 = collections w \<and> embed_log w1 = embed_log w"
  by (auto simp: chroma_get_def next_fault_def split: list.splits bool.splits)

lemma chroma_get_nofault:
  "faults w = [] \<Longrightarrow> chroma_get n i w = (Inr (filter (\<lambda>e. e_id e = i) (entries_of w n)), w)"
  by (simp add: chroma_get_def next_fault_def)

lemma chroma_get_entries:
  "chroma_get n i w = (r, w1) \<Longrightarrow> entries_of w1 m = entries_of w m"
  by (auto simp: chroma_get_def next_fault_def entries_of_def split: list.splits bool.splits)

lemma get_memory_embed_log:
  "get_memory env w p a i = (r, w1) \<Longrightarrow> embed_log w1 = embed_log w"
  by (auto simp: get_memory_def split: prod.splits sum.splits list.splits;
      metis goc_embed_log chroma_get_frame)

lemma get_memory_entries:
  "get_memory env w p a i = (r, w1) \<Longrightarrow> entries_of w1 n = entries_of w n"
  by (auto simp: get_memory_def split: prod.splits sum.splits list.splits;
      metis goc_entries chroma_get_entries)

lemma get_memory_nofault:
  "faults w = [] \<Longrightarrow> get_memory env w p a i = (r, w1) \<Longrightarrow> faults w1 = []"
  by (auto simp: get_memory_def chroma_get_nofault split: prod.splits sum.splits list.splits
        dest: goc_nofault)

lemma chroma_update_frame:
  "chroma_update n i emb doc md w = (r, w1) \<Longrightarrow> embed_log w1 = embed_log w"
  by (auto simp: chroma_update_def next_fault_def map_entries_def split: list.splits bool.splits)

lemma goc_nofault_eq:
  "faults w = [] \<Longrightarrow>
   get_or_create_collection env p a w =
     (Inr (get_collection_name env p a),
      case collections w (get_collection_name env p a) of
        Some c \<Rightarrow> w
      | None \<Rightarrow>
          w\<lparr>collections := (collections w)(get_collection_name env p a \<mapsto>
               \<lparr>c_metadata =
                  \<lparr>cm_project_id = p, cm_agent_id = a,
                   cm_embedding_provider = provider_name env,
                   cm_embedding_model = model_name env,
                   cm_embedding_dimension = dimension env\<rparr>,
                c_entries = []\<rparr>)\<rparr>)"
  by (simp add: get_or_create_collection_def chroma_get_or_create_collection_def Let_def
        next_fault_def split: option.splits)

subsection \<open>Storing\<close>

text \<open>
  Claim C2. When the provider's \<^verbatim>\<open>embed\<close> fails on the content, \<^verbatim>\<open>store_memory\<close>
  aborts with an error (the embedding error, or a storage error if resolving the partition
  already failed), and the records of every partition are what they were: the write
  comes after the embedding call and is not reached.
\<close>

theorem store_memory_embedding_failure:
  assumes "embed_fn env (mc_content mc) = None"
  shows "fst (store_memory env new_id now w mc) \<in> {Inl StorageError, Inl EmbeddingError}
         \<and> (\<forall>name. entries_of (snd (store_memory env new_id now w mc)) name = entries_of w name)"
proof -
  obtain r1 w1 where g: "get_or_create_collection env (mc_project_id mc) (mc_agent_id mc) w = (r1, w1)"
    by fastforce
  obtain r2 w2 where e: "embed env (mc_content mc) w1 = (r2, w2)"
    by fastforce
  have r2: "r2 = Inl EmbeddingError"
    using embed_result [OF e] assms by simp
  have ent: "entries_of w2 name = entries_of w name" for name
    using goc_entries [OF g] embed_entries [OF e] by simp
  show ?thesis
  proof (cases r1)
    case (Inl err)
    then have "r1 = Inl StorageError" using goc_result [OF g] by auto
    then show ?thesis using g goc_entries [OF g] by (simp add: store_memory_def)
  next
    case (Inr c)
    then show ?thesis using g e r2 ent by (simp add: store_memory_def)
  qed
qed

theorem store_memory_embedding_failure_witness:
  "embed_fn failing_env (mc_content demo_create) = None
   \<and> fst (store_memory failing_env ''id-1'' 7 empty_world demo_create)
       \<in> {Inl StorageError, Inl EmbeddingError}
   \<and> entries_of (snd (store_memory failing_env ''id-1'' 7 empty_world demo_create))
       ''p_p1_a_a1_emb_local'' = entries_of empty_world ''p_p1_a_a1_emb_local''"
  using store_memory_embedding_failure [of failing_env demo_create "''id-1''" 7 empty_world]
  by (simp add: failing_env_def stub_env_def)

subsection \<open>Updating and the embedding provider\<close>

text \<open>
  Claim C3. An \<^verbatim>\<open>update_memory\<close> call on an existing memory, with the storage engine
  answering every call, invokes the provider's \<^verbatim>\<open>embed\<close> not at all when no content is
  supplied, and exactly once, on the new content, when content is supplied: the log of
  embed calls grows by nothing, or by that one text.
\<close>

theorem update_memory_embed_calls:
  assumes "faults w = []"
    and "fst (get_memory env w pid aid mid) = Inr (Some existing)"
  shows "embed_log (snd (update_memory env now w pid aid mid update)) =
           embed_log w @ (case mu_content update of None \<Rightarrow> [] | Some c \<Rightarrow> [c])"
proof -
  obtain w1 where g: "get_memory env w pid aid mid = (Inr (Some existing), w1)"
    using assms(2) by (cases "get_memory env w pid aid mid") simp
  have w1: "faults w1 = []" "embed_log w1 = embed_log w"
    using get_memory_nofault [OF assms(1) g] get_memory_embed_log [OF g] by simp_all
  obtain r2 w2 where c: "get_or_create_collection env pid aid w1 = (r2, w2)"
    by fastforce
  have w2: "r2 = Inr (get_collection_name env pid aid)" "embed_log w2 = embed_log w"
    using goc_nofault [OF w1(1) c] goc_embed_log [OF c] w1(2) by simp_all
  show ?thesis
  proof (cases "mu_content update")
    case None
    then show ?thesis
      using g c w2
      by (auto simp: update_memory_def Let_def split: prod.splits sum.splits
            dest: chroma_update_frame)
  next
    case (Some cont)
    then show ?thesis
      using g c w2
      by (auto simp: update_memory_def Let_def split: prod.splits sum.splits
            dest!: chroma_update_frame embed_result)
  qed
qed

lemma demo_world_faults: "faults demo_world = []"
  by code_simp

lemma demo_world_get:
  "fst (get_memory stub_env demo_world ''p1'' ''a1'' ''id-1'') = Inr (Some demo_memory)"
  by code_simp

theorem update_memory_embed_calls_witness:
  "faults demo_world = []
   \<and> fst (get_memory stub_env demo_world ''p1'' ''a1'' ''id-1'') = Inr (Some demo_memory)
   \<and> embed_log (snd (update_memory stub_env 9 demo_world ''p1'' ''a1'' ''id-1''
          \<lparr>mu_content = Some ''Use OAuth'', mu_metadata = None\<rparr>))
       = embed_log demo_world @ [''Use OAuth'']
   \<and> embed_log (snd (update_memory stub_env 9 demo_world ''p1'' ''a1'' ''id-1''
          \<lparr>mu_content = None, mu_metadata = Some []\<rparr>))
       = embed_log demo_world"
  using demo_world_faults demo_world_get
    update_memory_embed_calls [OF demo_world_faults demo_world_get, of 9
      "\<lparr>mu_content = Some ''Use OAuth'', mu_metadata = None\<rparr>"]
    update_memory_embed_calls [OF demo_world_faults demo_world_get, of 9
      "\<lparr>mu_content = None, mu_metadata = Some []\<rparr>"]
  by simp

subsection \<open>Partitions created on the way\<close>

lemma get_memory_creates:
  assumes "faults w = []" and "collections w (get_collection_name env pid aid) = None"
  shows "fst (get_memory env w pid aid mid) = Inr None"
    and "collections (snd (get_memory env w pid aid mid)) (get_collection_name env pid aid) \<noteq> None"
    and "entries_of (snd (get_memory env w pid aid mid)) (get_collection_name env pid aid) = []"
  using assms
  by (simp_all add: get_memory_def goc_nofault_eq chroma_get_nofault entries_of_def)

lemma delete_memory_creates:
  assumes "faults w = []" and "collections w (get_collection_name env pid aid) = None"
  shows "collections (snd (delete_memory env w pid aid mid)) (get_collection_name env pid aid) \<noteq> None"
    and "entries_of (snd (delete_memory env w pid aid mid)) (get_collection_name env pid aid) = []"
  using assms
  by (simp_all add: delete_memory_def goc_nofault_eq chroma_delete_def next_fault_def
        map_entries_def entries_of_def)

lemma list_memories_creates:
  assumes "faults w = []" and "collections w (get_collection_name env pid aid) = None"
  shows "collections (snd (list_memories env w pid aid limit offset filters))
           (get_collection_name env pid aid) \<noteq> None"
    and "entries_of (snd (list_memories env w pid aid limit offset filters))
           (get_collection_name env pid aid) = []"
  using assms
  by (simp_all add: list_memories_def goc_nofault_eq chroma_get_all_def next_fault_def
        entries_of_def py_slice_def)

lemma update_memory_creates:
  assumes "faults w = []" and "collections w (get_collection_name env pid aid) = None"
  shows "collections (snd (update_memory env now w pid aid mid update))
           (get_collection_name env pid aid) \<noteq> None"
    and "entries_of (snd (update_memory env now w pid aid mid update))
           (get_collection_name env pid aid) = []"
  using assms
  by (simp_all add: update_memory_def get_memory_def goc_nofault_eq chroma_get_nofault entries_of_def)

lemma search_memories_creates:
  assumes "faults w = []" and "collections w (get_collection_name env pid aid) = None"
  shows "collections (snd (search_memories env w pid aid query limit filters))
           (get_collection_name env pid aid) \<noteq> None"
    and "entries_of (snd (search_memories env w pid aid query limit filters))
           (get_collection_name env pid aid) = []"
  using assms
  by (simp_all add: search_memories_def goc_nofault_eq embed_def chroma_query_def Let_def
        next_fault_def entries_of_def split: option.splits)

lemma store_memory_creates:
  assumes "faults w = []"
  shows "collections (snd (store_memory env new_id now w mc))
           (get_collection_name env (mc_project_id mc) (mc_agent_id mc)) \<noteq> None"
  using assms
  by (simp add: store_memory_def goc_nofault_eq embed_def chroma_add_def Let_def
        next_fault_def map_entries_def split: option.splits)

text \<open>
  Claim C10. Every public operation resolves its partition with
  \<^verbatim>\<open>_get_or_create_collection\<close> first, so on a scope that has no partition yet (and a
  storage engine that answers) each of them leaves a partition behind: \<^verbatim>\<open>get_memory\<close>
  answers not-found and the partition exists and is empty afterwards, and so it does after
  \<^verbatim>\<open>search_memories\<close>, \<^verbatim>\<open>list_memories\<close>, \<^verbatim>\<open>delete_memory\<close> and
  \<^verbatim>\<open>update_memory\<close>; after \<^verbatim>\<open>store_memory\<close> the partition exists.
\<close>

theorem operations_create_partition:
  assumes "faults w = []"
    and "collections w (get_collection_name env pid aid) = None"
  shows "fst (get_memory env w pid aid mid) = Inr None
    \<and> collections (snd (get_memory env w pid aid mid)) (get_collection_name env pid aid) \<noteq> None
    \<and> entries_of (snd (get_memory env w pid aid mid)) (get_collection_name env pid aid) = []
    \<and> collections (snd (search_memories env w pid aid query limit filters))
          (get_collection_name env pid aid) \<noteq> None
    \<and> entries_of (snd (search_memories env w pid aid query limit filters))
          (get_collection_name env pid aid) = []
    \<and> collections (snd (list_memories env w pid aid limit offset filters))
          (get_collection_name env pid aid) \<noteq> None
    \<and> entries_of (snd (list_memories env w pid aid limit offset filters))
          (get_collection_name env pid aid) = []
    \<and> collections (snd (delete_memory env w pid aid mid)) (get_collection_name env pid aid) \<noteq> None
    \<and> entries_of (snd (delete_memory env w pid aid mid)) (get_collection_name env pid aid) = []
    \<and> collections (snd (update_memory env now w pid aid mid update))
          (get_collection_name env pid aid) \<noteq> None
    \<and> entries_of (snd (update_memory env now w pid aid mid update))
          (get_collection_name env pid aid) = []
    \<and> collections
          (snd (store_memory env new_id now w
             \<lparr>mc_project_id = pid, mc_agent_id = aid, mc_content = cont, mc_metadata = md\<rparr>))
          (get_collection_name env pid aid) \<noteq> None"
  using get_memory_creates [OF assms] search_memories_creates [OF assms]
    list_memories_creates [OF assms] delete_memory_creates [OF assms]
    update_memory_creates [OF assms]
    store_memory_creates [OF assms(1), of env new_id now
      "\<lparr>mc_project_id = pid, mc_agent_id = aid, mc_content = cont, mc_metadata = md\<rparr>"]
  by simp

lemma empty_world_no_partition:
  "collections empty_world (get_collection_name stub_env ''p1'' ''a1'') = None"
  by (simp add: empty_world_def)

lemma empty_world_faults: "faults empty_world = []"
  by (simp add: empty_world_def)

theorem operations_create_partition_witness:
  "faults empty_world = []
   \<and> collections empty_world (get_collection_name stub_env ''p1'' ''a1'') = None
   \<and> fst (get_memory stub_env empty_world ''p1'' ''a1'' ''no-such-id'') = Inr None
   \<and> collections (snd (get_memory stub_env empty_world ''p1'' ''a1'' ''no-such-id''))
        (get_collection_name stub_env ''p1'' ''a1'') \<noteq> None
   \<and> entries_of (snd (get_memory stub_env empty_world ''p1'' ''a1'' ''no-such-id''))
        (get_collection_name stub_env ''p1'' ''a1'') = []
   \<and> collections (snd (delete_memory stub_env empty_world ''p1'' ''a1'' ''no-such-id''))
        (get_collection_name stub_env ''p1'' ''a1'') \<noteq> None"
  using empty_world_faults empty_world_no_partition
    operations_create_partition [OF empty_world_faults empty_world_no_partition,
      of "''no-such-id''"]
  by simp

subsection \<open>Deleting\<close>

text \<open>
  Claim C4. The docstring of \<^verbatim>\<open>delete_memory\<close> promises \<^verbatim>\<open>True\<close> if deleted and
  \<^verbatim>\<open>False\<close> otherwise. Run on a store holding one memory: the first delete answers
  \<^verbatim>\<open>True\<close>, the get that follows answers not-found, and the second delete of the same
  id answers \<^verbatim>\<open>True\<close> again, since \<^verbatim>\<open>collection.delete\<close> does not raise on an
  unknown id and nothing else is checked.
\<close>

theorem delete_memory_twice:
  "fst (delete_memory stub_env demo_world ''p1'' ''a1'' ''id-1'') = Inr True
   \<and> fst (get_memory stub_env (snd (delete_memory stub_env demo_world ''p1'' ''a1'' ''id-1''))
          ''p1'' ''a1'' ''id-1'') = Inr None
   \<and> fst (delete_memory stub_env (snd (delete_memory stub_env demo_world ''p1'' ''a1'' ''id-1''))
          ''p1'' ''a1'' ''id-1'') = Inr True"
  by code_simp

text \<open>A failure while the partition is resolved is outside the \<^verbatim>\<open>try\<close> and reaches
  the caller; a failure of \<^verbatim>\<open>collection.delete\<close> itself is answered with
  \<^verbatim>\<open>False\<close>; without a failure the answer is always \<^verbatim>\<open>True\<close>.\<close>

lemma delete_memory_propagates:
  "fst (delete_memory stub_env (demo_world\<lparr>faults := [True]\<rparr>) ''p1'' ''a1'' ''id-1'')
     = Inl StorageError"
  by code_simp

lemma delete_memory_caught:
  "fst (delete_memory stub_env (demo_world\<lparr>faults := [False, True]\<rparr>) ''p1'' ''a1'' ''id-1'')
     = Inr False"
  by code_simp

lemma delete_memory_always_true:
  "faults w = [] \<Longrightarrow> fst (delete_memory env w pid aid mid) = Inr True"
  by (simp add: delete_memory_def goc_nofault_eq chroma_delete_def next_fault_def
        split: option.splits)

subsection \<open>Searching\<close>

lemma memory_of_record_id:
  "memory_of_record env mid doc md = Inr m \<Longrightarrow> memory_id m = mid \<and> content m = doc"
  by (auto simp: memory_of_record_def split: sum.splits)

lemma convert_results_length:
  "convert_results env hs = Inr rs \<Longrightarrow> length rs = length hs"
  by (induction hs arbitrary: rs) (auto simp: Let_def split: if_splits sum.splits)

lemma convert_results_scores:
  "convert_results env hs = Inr rs \<Longrightarrow>
     map similarity_score rs = map (\<lambda>h. min (1 / (1 + snd h)) 1) hs"
  by (induction hs arbitrary: rs)
     (auto simp: Let_def SearchResult_def split: if_splits sum.splits)

lemma convert_results_ids:
  "convert_results env hs = Inr rs \<Longrightarrow>
     map (\<lambda>r. memory_id (sr_memory r)) rs = map (\<lambda>h. e_id (fst h)) hs"
proof (induction hs arbitrary: rs)
  case Nil
  then show ?case by simp
next
  case (Cons h hs)
  obtain r d where h: "h = (r, d)" by (cases h)
  from Cons.prems h obtain m sr srs where
    m: "memory_of_record env (e_id r) (e_document r) (e_metadata r) = Inr m"
    and sr: "SearchResult m (min (1 / (1 + d)) 1) = Inr sr"
    and rest: "convert_results env hs = Inr srs" and rs: "rs = sr # srs"
    by (auto simp: Let_def split: if_splits sum.splits)
  have "memory_id (sr_memory sr) = e_id r"
    using sr memory_of_record_id [OF m] by (auto simp: SearchResult_def split: if_splits)
  then show ?case using Cons.IH [OF rest] rs h by simp
qed

lemma convert_results_valid:
  "convert_results env hs = Inr rs \<Longrightarrow> \<forall>h \<in> set hs. - 1 < snd h"
proof (induction hs arbitrary: rs)
  case Nil
  then show ?case by simp
next
  case (Cons h hs)
  obtain r d where h: "h = (r, d)" by (cases h)
  from Cons.prems h have nz: "1 + d \<noteq> 0"
    by (auto split: if_splits)
  from Cons.prems h nz obtain m sr srs where
    "SearchResult m (min (1 / (1 + d)) 1) = Inr sr" and rest: "convert_results env hs = Inr srs"
    by (auto simp: Let_def split: sum.splits)
  then have "0 \<le> min (1 / (1 + d)) 1"
    by (auto simp: SearchResult_def split: if_splits)
  then have "0 \<le> 1 / (1 + d)" by simp
  with nz have "0 < 1 + d" by (simp add: zero_le_divide_iff)
  then show ?case using Cons.IH [OF rest] h by simp
qed

lemma chroma_query_result:
  assumes "chroma_query metric n q k wh w = (Inr hs, w1)"
  shows "0 < k" and "length hs \<le> nat k" and "sorted (map snd hs)"
    and "\<forall>h \<in> set hs. fst h \<in> set (entries_of w n) \<and> snd h = metric q (e_embedding (fst h))"
proof -
  from assms show k: "0 < k"
    by (auto simp: chroma_query_def split: if_splits)
  define admitted where "admitted =
      filter (\<lambda>e. case wh of None \<Rightarrow> True | Some f \<Rightarrow> where_matches f (e_metadata e))
        (entries_of w n)"
  define ranked where "ranked = sort_key snd (map (\<lambda>e. (e, metric q (e_embedding e))) admitted)"
  have hs: "hs = take (nat k) ranked"
    using assms k
    by (auto simp: chroma_query_def Let_def next_fault_def entries_of_def admitted_def ranked_def
          split: if_splits list.splits bool.splits)
  show "length hs \<le> nat k" by (simp add: hs)
  have "sorted (map snd ranked)" by (simp add: ranked_def sorted_sort_key)
  then show "sorted (map snd hs)" by (simp add: hs take_map [symmetric] sorted_wrt_take)
  have "set hs \<subseteq> set ranked" by (simp add: hs set_take_subset)
  then show "\<forall>h \<in> set hs. fst h \<in> set (entries_of w n) \<and> snd h = metric q (e_embedding (fst h))"
    by (auto simp: ranked_def admitted_def)
qed

lemma search_memories_success:
  assumes "search_memories env w pid aid query limit filters = (Inr rs, w')"
  shows "\<exists>qv hs. embed_fn env query = Some qv \<and> convert_results env hs = Inr rs
           \<and> 0 < limit \<and> length hs \<le> nat limit \<and> sorted (map snd hs)
           \<and> (\<forall>h \<in> set hs. fst h \<in> set (entries_of w (get_collection_name env pid aid))
                 \<and> snd h = distance env qv (e_embedding (fst h)))"
proof -
  obtain r1 w1 where g: "get_or_create_collection env pid aid w = (r1, w1)" by fastforce
  with assms have r1: "r1 = Inr (get_collection_name env pid aid)"
    using goc_result [OF g] by (auto simp: search_memories_def)
  obtain r2 w2 where e: "embed env query w1 = (r2, w2)" by fastforce
  with assms g r1 obtain qv where r2: "r2 = Inr qv"
    by (cases r2) (auto simp: search_memories_def)
  then have qv: "embed_fn env query = Some qv"
    using embed_result [OF e] by (auto split: option.splits)
  define wh where "wh = (case filters of None \<Rightarrow> None | Some f \<Rightarrow> if f = [] then None else Some f)"
  obtain r3 w3 where c: "chroma_query (distance env) (get_collection_name env pid aid) qv limit wh w2 = (r3, w3)"
    by fastforce
  with assms g r1 e r2 obtain hs where r3: "r3 = Inr hs"
    by (cases r3) (auto simp: search_memories_def Let_def wh_def)
  with assms g r1 e r2 c have cv: "convert_results env hs = Inr rs"
    by (auto simp: search_memories_def Let_def wh_def split: sum.splits)
  have ent: "entries_of w2 (get_collection_name env pid aid) = entries_of w (get_collection_name env pid aid)"
    using goc_entries [OF g] embed_entries [OF e] by simp
  show ?thesis
    using chroma_query_result [OF c [unfolded r3]] qv cv ent by auto
qed


lemma convert_results_all2:
  "convert_results env hs = Inr rs \<Longrightarrow>
     list_all2 (\<lambda>r h. memory_id (sr_memory r) = e_id (fst h)
                  \<and> similarity_score r = min (1 / (1 + snd h)) 1) rs hs"
proof (induction hs arbitrary: rs)
  case Nil
  then show ?case by simp
next
  case (Cons h hs)
  obtain r d where h: "h = (r, d)" by (cases h)
  from Cons.prems h obtain m sr srs where
    m: "memory_of_record env (e_id r) (e_document r) (e_metadata r) = Inr m"
    and sr: "SearchResult m (min (1 / (1 + d)) 1) = Inr sr"
    and rest: "convert_results env hs = Inr srs" and rs: "rs = sr # srs"
    by (auto simp: Let_def split: if_splits sum.splits)
  have "memory_id (sr_memory sr) = e_id r" "similarity_score sr = min (1 / (1 + d)) 1"
    using sr memory_of_record_id [OF m] by (auto simp: SearchResult_def split: if_splits)
  then show ?case using Cons.IH [OF rest] rs h by simp
qed

lemma similarity_antitone:
  fixes d d' :: real
  assumes "- 1 < d" and "d \<le> d'"
  shows "min (1 / (1 + d')) 1 \<le> min (1 / (1 + d)) 1"
proof -
  have "1 / (1 + d') \<le> 1 / (1 + d)"
    using assms by (intro divide_left_mono) (auto intro: mult_pos_pos)
  then show ?thesis by (simp add: min_le_iff_disj)
qed

lemma scores_descending:
  fixes ds :: "real list"
  shows "sorted ds \<Longrightarrow> \<forall>d \<in> set ds. - 1 < d \<Longrightarrow>
           sorted (rev (map (\<lambda>d. min (1 / (1 + d)) 1) ds))"
proof (induction ds)
  case Nil
  then show ?case by simp
next
  case (Cons d ds)
  have "min (1 / (1 + d')) 1 \<le> min (1 / (1 + d)) 1" if "d' \<in> set ds" for d'
    using Cons.prems that by (intro similarity_antitone) auto
  then show ?case using Cons by (auto simp: sorted_append)
qed

lemma score_of_nonneg_distance:
  fixes d :: real
  assumes "0 \<le> d"
  shows "1 + d \<noteq> 0" and "min (1 / (1 + d)) 1 = 1 / (1 + d)"
    and "0 \<le> 1 / (1 + d)" and "1 / (1 + d) \<le> 1"
    and "SearchResult m (min (1 / (1 + d)) 1) = Inr \<lparr>sr_memory = m, similarity_score = 1 / (1 + d)\<rparr>"
  using assms by (auto simp: SearchResult_def min_def)

text \<open>
  Claim C5. For every result of \<^verbatim>\<open>search_memories\<close>, when the index returns
  non-negative distances (zero included) for the records of the partition: the result
  belongs to a record of the partition, its \<^verbatim>\<open>similarity_score\<close> is
  \<open>1 / (1 + distance)\<close> capped at \<open>1\<close> (the cap changes nothing there), and it
  lies between \<open>0\<close> and \<open>1\<close>, both included. Distances are reals here.
\<close>

theorem search_similarity_bound:
  assumes "fst (search_memories env w pid aid query limit filters) = Inr rs"
    and "embed_fn env query = Some qv"
    and "\<forall>e \<in> set (entries_of w (get_collection_name env pid aid)).
           0 \<le> distance env qv (e_embedding e)"
  shows "\<forall>r \<in> set rs. \<exists>e \<in> set (entries_of w (get_collection_name env pid aid)).
           memory_id (sr_memory r) = e_id e
           \<and> similarity_score r = min (1 / (1 + distance env qv (e_embedding e))) 1
           \<and> similarity_score r = 1 / (1 + distance env qv (e_embedding e))
           \<and> 0 \<le> similarity_score r \<and> similarity_score r \<le> 1"
proof
  fix r assume r: "r \<in> set rs"
  from assms(1) have "search_memories env w pid aid query limit filters =
      (Inr rs, snd (search_memories env w pid aid query limit filters))"
    by (metis prod.collapse)
  from search_memories_success [OF this] assms(2) obtain hs where
    cv: "convert_results env hs = Inr rs"
    and hs: "\<forall>h \<in> set hs. fst h \<in> set (entries_of w (get_collection_name env pid aid))
                 \<and> snd h = distance env qv (e_embedding (fst h))"
    by auto
  from r obtain i where i: "i < length rs" "r = rs ! i"
    by (auto simp: in_set_conv_nth)
  have len: "length rs = length hs" using convert_results_length [OF cv] .
  let ?h = "hs ! i"
  have rh: "memory_id (sr_memory r) = e_id (fst ?h)"
      "similarity_score r = min (1 / (1 + snd ?h)) 1"
    using list_all2_nthD [OF convert_results_all2 [OF cv] i(1)] i(2) by simp_all
  have hin: "?h \<in> set hs" using i(1) len by simp
  then have e: "fst ?h \<in> set (entries_of w (get_collection_name env pid aid))"
    and d: "snd ?h = distance env qv (e_embedding (fst ?h))"
    using hs by auto
  have nonneg: "0 \<le> distance env qv (e_embedding (fst ?h))"
    using assms(3) e by auto
  show "\<exists>e \<in> set (entries_of w (get_collection_name env pid aid)).
           memory_id (sr_memory r) = e_id e
           \<and> similarity_score r = min (1 / (1 + distance env qv (e_embedding e))) 1
           \<and> similarity_score r = 1 / (1 + distance env qv (e_embedding e))
           \<and> 0 \<le> similarity_score r \<and> similarity_score r \<le> 1"
    using e rh d score_of_nonneg_distance(2-4) [OF nonneg]
    by (intro bexI [of _ "fst ?h"]) auto
qed

lemma demo_world_search:
  "fst (search_memories stub_env demo_world ''p1'' ''a1'' ''auth'' 10 None) = Inr [demo_result]"
  by code_simp

lemma stub_env_embed: "embed_fn stub_env ''auth'' = Some [1 / 10, 2 / 10, 3 / 10, 4 / 10]"
  by (simp add: stub_env_def)

lemma demo_world_distances:
  "\<forall>e \<in> set (entries_of demo_world (get_collection_name stub_env ''p1'' ''a1'')).
     0 \<le> distance stub_env [1 / 10, 2 / 10, 3 / 10, 4 / 10] (e_embedding e)"
  by code_simp

theorem search_similarity_bound_witness:
  "fst (search_memories stub_env demo_world ''p1'' ''a1'' ''auth'' 10 None) = Inr [demo_result]
   \<and> embed_fn stub_env ''auth'' = Some [1 / 10, 2 / 10, 3 / 10, 4 / 10]
   \<and> list_all (\<lambda>e. 0 \<le> distance stub_env [1 / 10, 2 / 10, 3 / 10, 4 / 10] (e_embedding e))
        (entries_of demo_world (get_collection_name stub_env ''p1'' ''a1''))
   \<and> (\<exists>e \<in> set (entries_of demo_world (get_collection_name stub_env ''p1'' ''a1'')).
         memory_id (sr_memory demo_result) = e_id e
         \<and> similarity_score demo_result
             = 1 / (1 + distance stub_env [1 / 10, 2 / 10, 3 / 10, 4 / 10] (e_embedding e))
         \<and> 0 \<le> similarity_score demo_result \<and> similarity_score demo_result \<le> 1)"
  using demo_world_search stub_env_embed demo_world_distances
    search_similarity_bound [OF demo_world_search stub_env_embed demo_world_distances]
  by (auto simp: list_all_iff)

text \<open>
  Claim C8, as the code has it. \<^verbatim>\<open>search_memories\<close> passes \<^verbatim>\<open>limit\<close> to the index
  as \<^verbatim>\<open>n_results\<close>, and ChromaDB rejects a value that is not positive: a search with
  limit zero on an empty scope ends in that error, not in the empty list.
\<close>

theorem search_limit_zero_counterexample:
  "fst (search_memories stub_env empty_world ''p1'' ''a1'' ''anything'' 0 None) = Inl TypeError"
  by code_simp

text \<open>
  Claim C8, amended. A search that returns has a positive limit and returns at most
  \<open>limit\<close> results, nearest first (the scores do not increase along the list); with a
  positive limit, a storage engine that answers and an embedding that succeeds, a scope
  without records gives the empty list; with a limit of zero or less the same call ends
  in the index's \<^verbatim>\<open>TypeError\<close>.
\<close>

theorem search_memories_limit:
  "(case fst (search_memories env w pid aid query limit filters) of
      Inl e \<Rightarrow> True
    | Inr rs \<Rightarrow> 0 < limit \<and> length rs \<le> nat limit \<and> sorted (rev (map similarity_score rs)))
   \<and> (0 < limit \<and> faults w = [] \<and> embed_fn env query \<noteq> None
        \<and> entries_of w (get_collection_name env pid aid) = []
      \<longrightarrow> fst (search_memories env w pid aid query limit filters) = Inr [])
   \<and> (limit \<le> 0 \<and> faults w = [] \<and> embed_fn env query \<noteq> None
      \<longrightarrow> fst (search_memories env w pid aid query limit filters) = Inl TypeError)"
proof (intro conjI impI)
  show "case fst (search_memories env w pid aid query limit filters) of
      Inl e \<Rightarrow> True
    | Inr rs \<Rightarrow> 0 < limit \<and> length rs \<le> nat limit \<and> sorted (rev (map similarity_score rs))"
  proof (cases "fst (search_memories env w pid aid query limit filters)")
    case (Inl e)
    then show ?thesis by simp
  next
    case (Inr rs)
    then have "search_memories env w pid aid query limit filters =
        (Inr rs, snd (search_memories env w pid aid query limit filters))"
      by (metis prod.collapse)
    from search_memories_success [OF this] obtain hs where
      cv: "convert_results env hs = Inr rs" and l: "0 < limit" "length hs \<le> nat limit"
      and so: "sorted (map snd hs)"
      by auto
    have "sorted (rev (map (\<lambda>d. min (1 / (1 + d)) 1) (map snd hs)))"
      using so convert_results_valid [OF cv] by (intro scores_descending) auto
    then have "sorted (rev (map similarity_score rs))"
      using convert_results_scores [OF cv] by (simp add: comp_def)
    then show ?thesis using Inr l convert_results_length [OF cv] by simp
  qed
next
  assume "0 < limit \<and> faults w = [] \<and> embed_fn env query \<noteq> None
        \<and> entries_of w (get_collection_name env pid aid) = []"
  then show "fst (search_memories env w pid aid query limit filters) = Inr []"
    by (auto simp: search_memories_def goc_nofault_eq embed_def chroma_query_def Let_def
          next_fault_def entries_of_def split: option.splits)
next
  assume "limit \<le> 0 \<and> faults w = [] \<and> embed_fn env query \<noteq> None"
  then show "fst (search_memories env w pid aid query limit filters) = Inl TypeError"
    by (auto simp: search_memories_def goc_nofault_eq embed_def chroma_query_def Let_def
          split: option.splits)
qed

lemma empty_world_entries:
  "entries_of empty_world (get_collection_name stub_env ''p1'' ''a1'') = []"
  by (simp add: empty_world_def entries_of_def)

theorem search_memories_limit_witness:
  "(0::int) < 5 \<and> faults empty_world = [] \<and> embed_fn stub_env ''anything'' \<noteq> None
   \<and> entries_of empty_world (get_collection_name stub_env ''p1'' ''a1'') = []
   \<and> fst (search_memories stub_env empty_world ''p1'' ''a1'' ''anything'' 5 None) = Inr []
   \<and> fst (search_memories stub_env demo_world ''p1'' ''a1'' ''auth'' 10 None) = Inr [demo_result]
   \<and> length [demo_result] \<le> nat 10
   \<and> (0::int) \<le> 0 \<and> fst (search_memories stub_env empty_world ''p1'' ''a1'' ''anything'' 0 None)
        = Inl TypeError"
  using empty_world_faults empty_world_entries demo_world_search
    search_memories_limit [where env = stub_env and w = empty_world and pid = "''p1''"
      and aid = "''a1''" and query = "''anything''" and limit = 5 and filters = None]
    search_memories_limit [where env = stub_env and w = demo_world and pid = "''p1''"
      and aid = "''a1''" and query = "''auth''" and limit = 10 and filters = None]
    search_memories_limit [where env = stub_env and w = empty_world and pid = "''p1''"
      and aid = "''a1''" and query = "''anything''" and limit = 0 and filters = None]
  by (simp add: stub_env_def)

subsection \<open>Round trip\<close>

lemma MemoryCreate_fields:
  "MemoryCreate (Some pid) (Some aid) (Some c) md = Inr mc \<Longrightarrow>
     mc_project_id mc = pid \<and> mc_agent_id mc = aid \<and> mc_content mc = c
     \<and> mc_metadata mc = (case md of None \<Rightarrow> [] | Some m \<Rightarrow> m) \<and> \<not> blank c"
  by (auto simp: MemoryCreate_def split: if_splits)

lemma filter_id_fresh:
  "i \<notin> set (map e_id es) \<Longrightarrow> filter (\<lambda>e. e_id e = i) es = []"
  by (induction es) auto

lemma store_memory_nofault:
  assumes "faults w = []" and "embed_fn env (mc_content mc) = Some v"
    and "new_id \<notin> set (map e_id (entries_of w (get_collection_name env (mc_project_id mc) (mc_agent_id mc))))"
  shows "fst (store_memory env new_id now w mc) =
           Inr \<lparr>memory_id = new_id, project_id = mc_project_id mc, agent_id = mc_agent_id mc,
                content = mc_content mc, metadata = mc_metadata mc,
                embedding_provider = provider_name env, embedding_model = model_name env,
                created_at = now, updated_at = now\<rparr>"
    and "faults (snd (store_memory env new_id now w mc)) = []"
    and "entries_of (snd (store_memory env new_id now w mc))
           (get_collection_name env (mc_project_id mc) (mc_agent_id mc)) =
         entries_of w (get_collection_name env (mc_project_id mc) (mc_agent_id mc)) @
           [\<lparr>e_id = new_id, e_embedding = v, e_document = mc_content mc,
             e_metadata =
               [(''project_id'', mc_project_id mc),
                (''agent_id'', mc_agent_id mc),
                (''custom_metadata'', serialize_metadata env (mc_metadata mc)),
                (''embedding_provider'', provider_name env),
                (''embedding_model'', model_name env),
                (''created_at'', isoformat env now),
                (''updated_at'', isoformat env now)]\<rparr>]"
  using assms
  by (auto simp: store_memory_def goc_nofault_eq embed_def chroma_add_def Let_def
        next_fault_def map_entries_def entries_of_def split: option.splits)


lemma get_memory_nofault_eq:
  "faults w = [] \<Longrightarrow>
   fst (get_memory env w p a i) =
     (case filter (\<lambda>e. e_id e = i) (entries_of w (get_collection_name env p a)) of
        [] \<Rightarrow> Inr None
      | r # rest \<Rightarrow>
          (case memory_of_record env (e_id r) (e_document r) (e_metadata r) of
             Inl e \<Rightarrow> Inl e
           | Inr m \<Rightarrow> Inr (Some m)))"
  by (auto simp: get_memory_def goc_nofault_eq chroma_get_nofault entries_of_def
        split: option.splits list.splits sum.splits)

lemma memory_of_envelope:
  assumes "json_dumps env md \<noteq> []" and "json_loads env (json_dumps env md) = Inr md"
    and "fromisoformat env (isoformat env c) = Inr c"
    and "fromisoformat env (isoformat env u) = Inr u"
  shows "memory_of_record env i doc
           [(''project_id'', p), (''agent_id'', a),
            (''custom_metadata'', serialize_metadata env md),
            (''embedding_provider'', prov), (''embedding_model'', model),
            (''created_at'', isoformat env c), (''updated_at'', isoformat env u)]
         = Inr \<lparr>memory_id = i, project_id = p, agent_id = a, content = doc, metadata = md,
                embedding_provider = prov, embedding_model = model,
                created_at = c, updated_at = u\<rparr>"
  using assms
  by (simp add: memory_of_record_def lookup_key_def get_default_def deserialize_metadata_def
        serialize_metadata_def)

text \<open>
  Claim C6. A request with content \<open>c\<close> and metadata \<open>md\<close> (or none, which
  \<^verbatim>\<open>MemoryCreate\<close> turns into the empty mapping) is stored and then read by the id
  returned, in the same scope: the memory read is the memory returned by the store, its
  content is \<open>c\<close> and its metadata is the one given, empty when none was given. The
  storage engine answers, the embedding succeeds, the id drawn is not yet in the
  partition, the metadata survives \<^verbatim>\<open>json.dumps\<close> and \<^verbatim>\<open>json.loads\<close> (and is not
  dumped as the empty string), and the instant survives \<^verbatim>\<open>isoformat\<close> and
  \<^verbatim>\<open>fromisoformat\<close>.
\<close>

theorem store_get_roundtrip:
  assumes "faults w = []"
    and "MemoryCreate (Some pid) (Some aid) (Some c) md = Inr mc"
    and "embed_fn env c \<noteq> None"
    and "new_id \<notin> set (map e_id (entries_of w (get_collection_name env pid aid)))"
    and "json_dumps env (case md of None \<Rightarrow> [] | Some m \<Rightarrow> m) \<noteq> []"
    and "json_loads env (json_dumps env (case md of None \<Rightarrow> [] | Some m \<Rightarrow> m))
           = Inr (case md of None \<Rightarrow> [] | Some m \<Rightarrow> m)"
    and "fromisoformat env (isoformat env now) = Inr now"
  shows "\<exists>m. fst (store_memory env new_id now w mc) = Inr m
           \<and> memory_id m = new_id \<and> content m = c
           \<and> metadata m = (case md of None \<Rightarrow> [] | Some m \<Rightarrow> m)
           \<and> fst (get_memory env (snd (store_memory env new_id now w mc)) pid aid new_id)
               = Inr (Some m)"
proof -
  note mc = MemoryCreate_fields [OF assms(2)]
  obtain v where v: "embed_fn env (mc_content mc) = Some v"
    using assms(3) mc by auto
  have fresh: "new_id \<notin> set (map e_id (entries_of w
      (get_collection_name env (mc_project_id mc) (mc_agent_id mc))))"
    using assms(4) mc by simp
  note st = store_memory_nofault [OF assms(1) v fresh, of now]
  have flt: "filter (\<lambda>e. e_id e = new_id) (entries_of w (get_collection_name env pid aid)) = []"
    using filter_id_fresh [OF assms(4)] .
  show ?thesis
    using st mc flt assms(5-7)
    by (simp add: get_memory_nofault_eq memory_of_envelope)
qed

lemma demo_create_valid:
  "MemoryCreate (Some ''p1'') (Some ''a1'') (Some ''Use JWT for auth'') (Some demo_tags)
     = Inr demo_create"
  by code_simp

lemma demo_create_default_valid:
  "MemoryCreate (Some ''p1'') (Some ''a1'') (Some ''Use JWT for auth'') None
     = Inr (demo_create\<lparr>mc_metadata := []\<rparr>)"
  by code_simp

lemma stub_env_embed_jwt: "embed_fn stub_env ''Use JWT for auth'' \<noteq> None"
  by (simp add: stub_env_def)

lemma empty_world_fresh:
  "''id-1'' \<notin> set (map e_id (entries_of empty_world (get_collection_name stub_env ''p1'' ''a1'')))"
  by (simp add: empty_world_def entries_of_def)

lemma stub_json_tags:
  "json_dumps stub_env (case Some demo_tags of None \<Rightarrow> [] | Some m \<Rightarrow> m) \<noteq> []"
  "json_loads stub_env (json_dumps stub_env (case Some demo_tags of None \<Rightarrow> [] | Some m \<Rightarrow> m))
     = Inr (case Some demo_tags of None \<Rightarrow> [] | Some m \<Rightarrow> m)"
  by (simp_all add: stub_env_def stub_dumps_def stub_loads_def demo_tags_def)

lemma stub_json_default:
  "json_dumps stub_env (case None of None \<Rightarrow> [] | Some m \<Rightarrow> m) \<noteq> []"
  "json_loads stub_env (json_dumps stub_env (case None of None \<Rightarrow> [] | Some m \<Rightarrow> m))
     = Inr (case None of None \<Rightarrow> [] | Some m \<Rightarrow> m)"
  by (simp_all add: stub_env_def stub_dumps_def stub_loads_def)

lemma stub_iso_7: "fromisoformat stub_env (isoformat stub_env 7) = Inr 7"
  by (simp add: stub_env_def)

lemma stub_iso_9: "fromisoformat stub_env (isoformat stub_env 9) = Inr 9"
  by (simp add: stub_env_def)

lemma demo_store:
  "fst (store_memory stub_env ''id-1'' 7 empty_world demo_create) = Inr demo_memory"
  by code_simp

lemma demo_store_default:
  "fst (store_memory stub_env ''id-1'' 7 empty_world (demo_create\<lparr>mc_metadata := []\<rparr>))
     = Inr (demo_memory\<lparr>metadata := []\<rparr>)"
  by code_simp

theorem store_get_roundtrip_witness:
  "faults empty_world = []
   \<and> MemoryCreate (Some ''p1'') (Some ''a1'') (Some ''Use JWT for auth'') (Some demo_tags)
       = Inr demo_create
   \<and> embed_fn stub_env ''Use JWT for auth'' \<noteq> None
   \<and> ''id-1'' \<notin> set (map e_id (entries_of empty_world (get_collection_name stub_env ''p1'' ''a1'')))
   \<and> json_loads stub_env (json_dumps stub_env demo_tags) = Inr demo_tags
   \<and> fromisoformat stub_env (isoformat stub_env 7) = Inr 7
   \<and> fst (store_memory stub_env ''id-1'' 7 empty_world demo_create) = Inr demo_memory
   \<and> content demo_memory = ''Use JWT for auth'' \<and> metadata demo_memory = demo_tags
   \<and> fst (get_memory stub_env (snd (store_memory stub_env ''id-1'' 7 empty_world demo_create))
          ''p1'' ''a1'' ''id-1'') = Inr (Some demo_memory)
   \<and> fst (get_memory stub_env
          (snd (store_memory stub_env ''id-1'' 7 empty_world (demo_create\<lparr>mc_metadata := []\<rparr>)))
          ''p1'' ''a1'' ''id-1'') = Inr (Some (demo_memory\<lparr>metadata := []\<rparr>))"
  using empty_world_faults demo_create_valid stub_env_embed_jwt empty_world_fresh
    stub_json_tags stub_iso_7 demo_store demo_store_default
    store_get_roundtrip [OF empty_world_faults demo_create_valid stub_env_embed_jwt
      empty_world_fresh stub_json_tags stub_iso_7]
    store_get_roundtrip [OF empty_world_faults demo_create_default_valid stub_env_embed_jwt
      empty_world_fresh stub_json_default stub_iso_7]
  by (auto simp: demo_memory_def demo_tags_def)

subsection \<open>What an update keeps\<close>

lemma get_memory_nofault_world:
  "faults w = [] \<Longrightarrow>
   snd (get_memory env w p a i) = snd (get_or_create_collection env p a w)"
  by (auto simp: get_memory_def goc_nofault_eq chroma_get_nofault
        split: option.splits list.splits sum.splits)

lemma goc_idem:
  "faults w = [] \<Longrightarrow>
   get_or_create_collection env p a (snd (get_or_create_collection env p a w)) =
     get_or_create_collection env p a w"
  by (auto simp: goc_nofault_eq split: option.splits)

lemma goc_nofault_snd:
  "faults w = [] \<Longrightarrow> faults (snd (get_or_create_collection env p a w)) = []"
  "entries_of (snd (get_or_create_collection env p a w)) n = entries_of w n"
  "embed_log (snd (get_or_create_collection env p a w)) = embed_log w"
  using goc_nofault [of w env p a] goc_entries [of env p a w] goc_embed_log [of env p a w]
  by (metis prod.collapse)+

lemma chroma_update_nofault:
  "faults w = [] \<Longrightarrow>
   chroma_update n i emb doc md w =
     (Inr (),
      map_entries n
        (map (\<lambda>e. if e_id e = i
                   then e\<lparr>e_embedding := (case emb of None \<Rightarrow> e_embedding e | Some v \<Rightarrow> v),
                          e_document := doc,
                          e_metadata := merge_metadata md (e_metadata e)\<rparr>
                   else e)) w)"
  by (simp add: chroma_update_def next_fault_def)

lemma map_entries_entries:
  "entries_of (map_entries n f w) m = (if m = n then
      (case collections w n of None \<Rightarrow> [] | Some c \<Rightarrow> f (c_entries c)) else entries_of w m)"
  by (auto simp: map_entries_def entries_of_def split: option.splits)

lemma map_entries_frame:
  "faults (map_entries n f w) = faults w" "embed_log (map_entries n f w) = embed_log w"
  by (simp_all add: map_entries_def)


lemma memory_of_merged_envelope:
  assumes "json_dumps env md \<noteq> []" and "json_loads env (json_dumps env md) = Inr md"
    and "fromisoformat env (isoformat env c) = Inr c"
    and "fromisoformat env (isoformat env u) = Inr u"
  shows "memory_of_record env i doc
           (merge_metadata
              [(''project_id'', p), (''agent_id'', a),
               (''custom_metadata'', serialize_metadata env md),
               (''embedding_provider'', prov), (''embedding_model'', model),
               (''created_at'', isoformat env c), (''updated_at'', isoformat env u)] old)
         = Inr \<lparr>memory_id = i, project_id = p, agent_id = a, content = doc, metadata = md,
                embedding_provider = prov, embedding_model = model,
                created_at = c, updated_at = u\<rparr>"
  using assms
  by (simp add: memory_of_record_def lookup_key_def get_default_def deserialize_metadata_def
        serialize_metadata_def merge_metadata_def map_add_def)

lemma get_memory_found:
  assumes "faults w = []" and "fst (get_memory env w p a i) = Inr (Some m)"
  shows "\<exists>r rest. filter (\<lambda>e. e_id e = i) (entries_of w (get_collection_name env p a)) = r # rest
           \<and> e_id r = i
           \<and> memory_of_record env (e_id r) (e_document r) (e_metadata r) = Inr m"
proof -
  let ?es = "filter (\<lambda>e. e_id e = i) (entries_of w (get_collection_name env p a))"
  from assms obtain r rest where r: "?es = r # rest"
    by (cases ?es) (auto simp: get_memory_nofault_eq)
  then have "r \<in> set ?es" by simp
  then have "e_id r = i" by simp
  moreover have "memory_of_record env (e_id r) (e_document r) (e_metadata r) = Inr m"
    using assms r by (auto simp: get_memory_nofault_eq split: sum.splits)
  ultimately show ?thesis using r by blast
qed

lemma update_memory_nofault:
  assumes "faults w = []"
    and "fst (get_memory env w pid aid mid) = Inr (Some existing)"
    and "mu_content update = None \<or> (\<exists>c v. mu_content update = Some c \<and> embed_fn env c = Some v)"
  shows "fst (update_memory env now w pid aid mid update) =
           Inr (Some \<lparr>memory_id = mid, project_id = pid, agent_id = aid,
                content = (case mu_content update of Some c \<Rightarrow> c | None \<Rightarrow> content existing),
                metadata = (case mu_metadata update of Some m \<Rightarrow> m | None \<Rightarrow> metadata existing),
                embedding_provider = embedding_provider existing,
                embedding_model = embedding_model existing,
                created_at = created_at existing, updated_at = now\<rparr>)"
    and "faults (snd (update_memory env now w pid aid mid update)) = []"
    and "entries_of (snd (update_memory env now w pid aid mid update))
           (get_collection_name env pid aid) =
         map (\<lambda>e. if e_id e = mid
                   then e\<lparr>e_embedding :=
                            (case (case mu_content update of None \<Rightarrow> None
                                   | Some c \<Rightarrow> embed_fn env c) of
                               None \<Rightarrow> e_embedding e | Some v \<Rightarrow> v),
                          e_document :=
                            (case mu_content update of Some c \<Rightarrow> c | None \<Rightarrow> content existing),
                          e_metadata :=
                            merge_metadata
                              [(''project_id'', pid),
                               (''agent_id'', aid),
                               (''custom_metadata'', serialize_metadata env
                                  (case mu_metadata update of Some m \<Rightarrow> m
                                   | None \<Rightarrow> metadata existing)),
                               (''embedding_provider'', embedding_provider existing),
                               (''embedding_model'', embedding_model existing),
                               (''created_at'', isoformat env (created_at existing)),
                               (''updated_at'', isoformat env now)]
                              (e_metadata e)\<rparr>
                   else e)
           (entries_of w (get_collection_name env pid aid))"
proof -
  let ?w1 = "snd (get_or_create_collection env pid aid w)"
  have g: "get_memory env w pid aid mid = (Inr (Some existing), ?w1)"
    using assms(2) get_memory_nofault_world [OF assms(1), of env pid aid mid]
    by (metis prod.collapse)
  have c: "get_or_create_collection env pid aid ?w1 = (Inr (get_collection_name env pid aid), ?w1)"
    using goc_idem [OF assms(1), of env pid aid] goc_nofault_eq [OF assms(1), of env pid aid]
    by simp
  have f1: "faults ?w1 = []" using goc_nofault_snd(1) [OF assms(1)] .
  have ex: "collections ?w1 (get_collection_name env pid aid) \<noteq> None"
    using goc_exists [OF c] .
  have e1: "entries_of ?w1 n = entries_of w n" for n
    using goc_nofault_snd(2) .
  have e1': "(case collections ?w1 (get_collection_name env pid aid) of None \<Rightarrow> []
              | Some c \<Rightarrow> f (c_entries c)) = f (entries_of w (get_collection_name env pid aid))" for f
    using ex e1 [of "get_collection_name env pid aid"]
    by (auto simp: entries_of_def split: option.splits)
  show "fst (update_memory env now w pid aid mid update) =
           Inr (Some \<lparr>memory_id = mid, project_id = pid, agent_id = aid,
                content = (case mu_content update of Some c \<Rightarrow> c | None \<Rightarrow> content existing),
                metadata = (case mu_metadata update of Some m \<Rightarrow> m | None \<Rightarrow> metadata existing),
                embedding_provider = embedding_provider existing,
                embedding_model = embedding_model existing,
                created_at = created_at existing, updated_at = now\<rparr>)"
    using assms(3) g c f1
    by (auto simp: update_memory_def Let_def embed_def chroma_update_nofault)
  show "faults (snd (update_memory env now w pid aid mid update)) = []"
    using assms(3) g c f1
    by (auto simp: update_memory_def Let_def embed_def chroma_update_nofault map_entries_frame)
  show "entries_of (snd (update_memory env now w pid aid mid update))
           (get_collection_name env pid aid) =
         map (\<lambda>e. if e_id e = mid
                   then e\<lparr>e_embedding :=
                            (case (case mu_content update of None \<Rightarrow> None
                                   | Some c \<Rightarrow> embed_fn env c) of
                               None \<Rightarrow> e_embedding e | Some v \<Rightarrow> v),
                          e_document :=
                            (case mu_content update of Some c \<Rightarrow> c | None \<Rightarrow> content existing),
                          e_metadata :=
                            merge_metadata
                              [(''project_id'', pid),
                               (''agent_id'', aid),
                               (''custom_metadata'', serialize_metadata env
                                  (case mu_metadata update of Some m \<Rightarrow> m
                                   | None \<Rightarrow> metadata existing)),
                               (''embedding_provider'', embedding_provider existing),
                               (''embedding_model'', embedding_model existing),
                               (''created_at'', isoformat env (created_at existing)),
                               (''updated_at'', isoformat env now)]
                              (e_metadata e)\<rparr>
                   else e)
           (entries_of w (get_collection_name env pid aid))"
    using assms(3) g c f1
    by (auto simp: update_memory_def Let_def embed_def chroma_update_nofault
          map_entries_entries e1')
qed


lemma update_memory_embed_fails:
  assumes "faults w = []"
    and "fst (get_memory env w pid aid mid) = Inr (Some existing)"
    and "mu_content update = Some c" and "embed_fn env c = None"
  shows "fst (update_memory env now w pid aid mid update) = Inl EmbeddingError"
proof -
  let ?w1 = "snd (get_or_create_collection env pid aid w)"
  have g: "get_memory env w pid aid mid = (Inr (Some existing), ?w1)"
    using assms(2) get_memory_nofault_world [OF assms(1), of env pid aid mid]
    by (metis prod.collapse)
  have c: "get_or_create_collection env pid aid ?w1 = (Inr (get_collection_name env pid aid), ?w1)"
    using goc_idem [OF assms(1), of env pid aid] goc_nofault_eq [OF assms(1), of env pid aid]
    by simp
  show ?thesis
    using assms(3,4) g c by (simp add: update_memory_def Let_def embed_def)
qed

lemma filter_id_map:
  assumes "\<And>e. e_id (f e) = e_id e"
  shows "filter (\<lambda>e. e_id e = i) (map f es) = map f (filter (\<lambda>e. e_id e = i) es)"
  using assms by (induction es) auto

text \<open>
  Claim C7. A successful \<^verbatim>\<open>update_memory\<close> (content, metadata or both) returns a
  record with the \<^verbatim>\<open>created_at\<close>, \<^verbatim>\<open>embedding_provider\<close> and
  \<^verbatim>\<open>embedding_model\<close> of the record it found and with \<^verbatim>\<open>updated_at\<close> set to the
  instant of the update, and that is the record persisted: reading the id again gives
  the record returned (under the same conditions on the JSON codec and the instants as
  for the round trip).
\<close>

theorem update_memory_timestamps:
  assumes "faults w = []"
    and "fst (get_memory env w pid aid mid) = Inr (Some existing)"
    and "fst (update_memory env now w pid aid mid update) = Inr (Some updated)"
    and "json_dumps env (metadata updated) \<noteq> []"
    and "json_loads env (json_dumps env (metadata updated)) = Inr (metadata updated)"
    and "fromisoformat env (isoformat env now) = Inr now"
    and "fromisoformat env (isoformat env (created_at existing)) = Inr (created_at existing)"
  shows "created_at updated = created_at existing
    \<and> embedding_provider updated = embedding_provider existing
    \<and> embedding_model updated = embedding_model existing
    \<and> updated_at updated = now
    \<and> fst (get_memory env (snd (update_memory env now w pid aid mid update)) pid aid mid)
        = Inr (Some updated)"
proof -
  have emb: "mu_content update = None
      \<or> (\<exists>c v. mu_content update = Some c \<and> embed_fn env c = Some v)"
  proof (cases "mu_content update")
    case None
    then show ?thesis by simp
  next
    case (Some c)
    have "embed_fn env c \<noteq> None"
      using update_memory_embed_fails [OF assms(1,2) Some, of now] assms(3) by auto
    then show ?thesis using Some by auto
  qed
  note u = update_memory_nofault [OF assms(1,2) emb, of now]
  let ?content = "case mu_content update of Some c \<Rightarrow> c | None \<Rightarrow> content existing"
  let ?md = "case mu_metadata update of Some m \<Rightarrow> m | None \<Rightarrow> metadata existing"
  have upd: "updated = \<lparr>memory_id = mid, project_id = pid, agent_id = aid,
                content = ?content, metadata = ?md,
                embedding_provider = embedding_provider existing,
                embedding_model = embedding_model existing,
                created_at = created_at existing, updated_at = now\<rparr>"
    using u(1) assms(3) by simp
  have md: "metadata updated = ?md" using upd by simp
  from get_memory_found [OF assms(1,2)] obtain r rest where
    r: "filter (\<lambda>e. e_id e = mid) (entries_of w (get_collection_name env pid aid)) = r # rest"
    and rid: "e_id r = mid"
    by blast
  let ?w' = "snd (update_memory env now w pid aid mid update)"
  have "filter (\<lambda>e. e_id e = mid) (entries_of ?w' (get_collection_name env pid aid)) \<noteq> []"
    unfolding u(3) by (subst filter_id_map) (auto simp: r)
  then obtain r' rest' where
    r': "filter (\<lambda>e. e_id e = mid) (entries_of ?w' (get_collection_name env pid aid)) = r' # rest'"
    by (cases "filter (\<lambda>e. e_id e = mid) (entries_of ?w' (get_collection_name env pid aid))") auto
  have r'eq: "e_id r' = mid \<and> e_document r' = ?content
      \<and> e_metadata r' =
          merge_metadata
            [(''project_id'', pid), (''agent_id'', aid),
             (''custom_metadata'', serialize_metadata env ?md),
             (''embedding_provider'', embedding_provider existing),
             (''embedding_model'', embedding_model existing),
             (''created_at'', isoformat env (created_at existing)),
             (''updated_at'', isoformat env now)]
            (e_metadata r)"
    using r' r rid unfolding u(3) by (subst (asm) filter_id_map) auto
  have "memory_of_record env (e_id r') (e_document r') (e_metadata r') = Inr updated"
    using r'eq upd memory_of_merged_envelope [OF assms(4,5) [unfolded md] assms(7,6)]
    by simp
  then have "fst (get_memory env ?w' pid aid mid) = Inr (Some updated)"
    using r' by (simp add: get_memory_nofault_eq [OF u(2)])
  then show ?thesis using upd by simp
qed

lemma demo_update_metadata:
  "fst (update_memory stub_env 9 demo_world ''p1'' ''a1'' ''id-1'' demo_update_md)
     = Inr (Some (demo_memory\<lparr>metadata := [], updated_at := 9\<rparr>))"
  by code_simp

lemma demo_update_content:
  "fst (update_memory stub_env 9 demo_world ''p1'' ''a1'' ''id-1'' demo_update_content_req)
     = Inr (Some (demo_memory\<lparr>content := ''Use OAuth'', updated_at := 9\<rparr>))"
  by code_simp

lemma stub_json_updated:
  "json_dumps stub_env (metadata (demo_memory\<lparr>metadata := [], updated_at := 9\<rparr>)) \<noteq> []"
  "json_loads stub_env (json_dumps stub_env (metadata (demo_memory\<lparr>metadata := [], updated_at := 9\<rparr>)))
     = Inr (metadata (demo_memory\<lparr>metadata := [], updated_at := 9\<rparr>))"
  "json_dumps stub_env (metadata (demo_memory\<lparr>content := ''Use OAuth'', updated_at := 9\<rparr>)) \<noteq> []"
  "json_loads stub_env
     (json_dumps stub_env (metadata (demo_memory\<lparr>content := ''Use OAuth'', updated_at := 9\<rparr>)))
     = Inr (metadata (demo_memory\<lparr>content := ''Use OAuth'', updated_at := 9\<rparr>))"
  by (simp_all add: stub_env_def stub_dumps_def stub_loads_def demo_memory_def)

lemma stub_iso_created:
  "fromisoformat stub_env (isoformat stub_env (created_at demo_memory)) = Inr (created_at demo_memory)"
  by (simp add: stub_env_def demo_memory_def)

theorem update_memory_timestamps_witness:
  "faults demo_world = []
   \<and> fst (get_memory stub_env demo_world ''p1'' ''a1'' ''id-1'') = Inr (Some demo_memory)
   \<and> fst (update_memory stub_env 9 demo_world ''p1'' ''a1'' ''id-1'' demo_update_md)
       = Inr (Some (demo_memory\<lparr>metadata := [], updated_at := 9\<rparr>))
   \<and> fromisoformat stub_env (isoformat stub_env 9) = Inr 9
   \<and> created_at (demo_memory\<lparr>metadata := [], updated_at := 9\<rparr>) = 7
   \<and> updated_at (demo_memory\<lparr>metadata := [], updated_at := 9\<rparr>) = 9
   \<and> fst (get_memory stub_env
          (snd (update_memory stub_env 9 demo_world ''p1'' ''a1'' ''id-1'' demo_update_md))
          ''p1'' ''a1'' ''id-1'') = Inr (Some (demo_memory\<lparr>metadata := [], updated_at := 9\<rparr>))
   \<and> fst (get_memory stub_env
          (snd (update_memory stub_env 9 demo_world ''p1'' ''a1'' ''id-1'' demo_update_content_req))
          ''p1'' ''a1'' ''id-1'')
       = Inr (Some (demo_memory\<lparr>content := ''Use OAuth'', updated_at := 9\<rparr>))"
  using demo_world_faults demo_world_get demo_update_metadata stub_iso_9
    update_memory_timestamps [OF demo_world_faults demo_world_get demo_update_metadata
      stub_json_updated(1,2) stub_iso_9 stub_iso_created]
    update_memory_timestamps [OF demo_world_faults demo_world_get demo_update_content
      stub_json_updated(3,4) stub_iso_9 stub_iso_created]
  by (simp add: demo_memory_def)

subsection \<open>Validation\<close>

lemma blank_rejected:
  "blank c \<Longrightarrow> MemoryCreate pid aid (Some c) md = Inl ValidationError"
  "blank c \<Longrightarrow> MemoryUpdate (Some c) md' = Inl ValidationError"
  by (auto simp: MemoryCreate_def MemoryUpdate_def split: option.splits)

lemma missing_scope_rejected:
  "pid = None \<or> aid = None \<Longrightarrow> MemoryCreate pid aid cont md = Inl ValidationError"
  by (auto simp: MemoryCreate_def split: option.splits)

lemma validated_content:
  "MemoryCreate pid aid cont md = Inr mc \<Longrightarrow> \<not> blank (mc_content mc)"
  "MemoryUpdate cont md' = Inr mu \<Longrightarrow> mu_content mu = Some c \<Longrightarrow> \<not> blank c"
  by (auto simp: MemoryCreate_def MemoryUpdate_def split: option.splits if_splits)

lemma call_tool_rejects:
  "arg_content arguments = Some c \<Longrightarrow> blank c \<Longrightarrow>
     arg_project_id arguments \<noteq> None \<Longrightarrow> arg_agent_id arguments \<noteq> None \<Longrightarrow>
     call_tool_store_memory env new_id now w arguments = (Inl ValidationError, w)"
  "arg_content arguments = Some c \<Longrightarrow> blank c \<Longrightarrow>
     call_tool_update_memory env now w arguments = (Inl ValidationError, w)"
  "arg_project_id arguments = None \<or> arg_agent_id arguments = None \<Longrightarrow>
     snd (call_tool_store_memory env new_id now w arguments) = w
     \<and> (\<exists>e. fst (call_tool_store_memory env new_id now w arguments) = Inl e)"
  by (auto simp: call_tool_store_memory_def call_tool_update_memory_def blank_rejected
        split: option.splits sum.splits)

lemma store_memory_entries_subset:
  "set (entries_of (snd (store_memory env new_id now w mc)) n)
     \<subseteq> set (entries_of w n) \<union> {e. e_document e = mc_content mc}"
  by (auto simp: store_memory_def get_or_create_collection_def
        chroma_get_or_create_collection_def embed_def chroma_add_def Let_def next_fault_def
        map_entries_def entries_of_def
        split: option.splits list.splits bool.splits if_splits)


lemma chroma_update_entries:
  assumes "chroma_update n0 i emb doc md w = (r, w1)" and "e' \<in> set (entries_of w1 n)"
  shows "e' \<in> set (entries_of w n) \<or> (n = n0 \<and> e_document e' = doc)"
proof -
  obtain f w0 where nf: "next_fault w = (f, w0)" by fastforce
  have c0: "collections w0 = collections w" using next_fault_frame [OF nf] by simp
  then have e0: "entries_of w0 m = entries_of w m" for m by (simp add: entries_of_def)
  show ?thesis
  proof (cases f)
    case True
    then show ?thesis using assms nf e0 by (simp add: chroma_update_def)
  next
    case False
    show ?thesis
    proof (cases "n = n0")
      case neq: False
      then show ?thesis
        using assms nf False e0 by (auto simp: chroma_update_def map_entries_entries)
    next
      case True
      let ?upd = "\<lambda>e. if e_id e = i
                   then e\<lparr>e_embedding := (case emb of None \<Rightarrow> e_embedding e | Some v \<Rightarrow> v),
                          e_document := doc,
                          e_metadata := merge_metadata md (e_metadata e)\<rparr>
                   else e"
      have w1: "w1 = map_entries n0 (map ?upd) w0"
        using assms(1) nf False by (simp add: chroma_update_def)
      have "entries_of w1 n0 = map ?upd (entries_of w n0)"
        unfolding w1 map_entries_entries using c0
        by (simp add: entries_of_def split: option.splits)
      then have "e' \<in> set (map ?upd (entries_of w n0))" using assms(2) True by simp
      then obtain e where "e \<in> set (entries_of w n0)" and "e' = ?upd e" by auto
      then show ?thesis using True by (cases "e_id e = i") auto
    qed
  qed
qed

lemma get_memory_document:
  assumes "get_memory env w p a i = (Inr (Some m), w1)"
  shows "\<exists>r \<in> set (entries_of w (get_collection_name env p a)). content m = e_document r"
proof -
  obtain r1 w0 where g: "get_or_create_collection env p a w = (r1, w0)" by fastforce
  with assms have r1: "r1 = Inr (get_collection_name env p a)"
    using goc_result [OF g] by (auto simp: get_memory_def)
  obtain r2 w2 where c: "chroma_get (get_collection_name env p a) i w0 = (r2, w2)" by fastforce
  with assms g r1 obtain es where r2: "r2 = Inr es"
    by (cases r2) (auto simp: get_memory_def)
  with assms g r1 c obtain r rest where es: "es = r # rest"
    and m: "memory_of_record env (e_id r) (e_document r) (e_metadata r) = Inr m"
    by (cases es) (auto simp: get_memory_def split: sum.splits)
  have "set es \<subseteq> set (entries_of w0 (get_collection_name env p a))"
    using c r2 by (auto simp: chroma_get_def next_fault_def entries_of_def
        split: list.splits bool.splits)
  then have "r \<in> set (entries_of w (get_collection_name env p a))"
    using es goc_entries [OF g] by auto
  then show ?thesis using memory_of_record_id [OF m] by auto
qed

lemma update_memory_entries:
  assumes "e' \<in> set (entries_of (snd (update_memory env now w pid aid mid update)) n)"
  shows "e' \<in> set (entries_of w n)
     \<or> (\<exists>c. mu_content update = Some c \<and> e_document e' = c)
     \<or> (mu_content update = None \<and> (\<exists>r \<in> set (entries_of w n). e_document e' = e_document r))"
proof -
  obtain r1 w1 where g: "get_memory env w pid aid mid = (r1, w1)" by fastforce
  have e1: "entries_of w1 m = entries_of w m" for m using get_memory_entries [OF g] .
  show ?thesis
  proof (cases r1)
    case (Inl err)
    then show ?thesis using assms g e1 by (simp add: update_memory_def)
  next
    case (Inr mo)
    show ?thesis
    proof (cases mo)
      case None
      then show ?thesis using assms g e1 Inr by (simp add: update_memory_def)
    next
      case (Some existing)
      note g' = g [unfolded Inr Some]
      obtain r2 w2 where c: "get_or_create_collection env pid aid w1 = (r2, w2)" by fastforce
      have e2: "entries_of w2 m = entries_of w m" for m using goc_entries [OF c] e1 by simp
      show ?thesis
      proof (cases r2)
        case (Inl err)
        then show ?thesis using assms g' c e2 by (simp add: update_memory_def)
      next
        case (Inr coll)
        then have coll: "coll = get_collection_name env pid aid" using goc_result [OF c] by auto
        show ?thesis
        proof (cases "mu_content update")
          case None
          obtain r3 w3 where u: "chroma_update coll mid None (content existing)
              [(''project_id'', pid), (''agent_id'', aid),
               (''custom_metadata'', serialize_metadata env
                  (case mu_metadata update of Some m \<Rightarrow> m | None \<Rightarrow> metadata existing)),
               (''embedding_provider'', embedding_provider existing),
               (''embedding_model'', embedding_model existing),
               (''created_at'', isoformat env (created_at existing)),
               (''updated_at'', isoformat env now)] w2 = (r3, w3)" by fastforce
          have w': "snd (update_memory env now w pid aid mid update) = w3"
            using g' c Inr None u by (auto simp: update_memory_def Let_def split: sum.splits)
          from chroma_update_entries [OF u, of e' n] assms w'
          have "e' \<in> set (entries_of w n) \<or> (n = coll \<and> e_document e' = content existing)"
            using e2 by simp
          then show ?thesis using None get_memory_document [OF g'] coll by auto
        next
          case (Some cont)
          obtain r3 w3 where em: "embed env cont w2 = (r3, w3)" by fastforce
          have e3: "entries_of w3 m = entries_of w m" for m using embed_entries [OF em] e2 by simp
          show ?thesis
          proof (cases r3)
            case (Inl err)
            then show ?thesis using assms g' c Inr Some em e3 by (simp add: update_memory_def Let_def)
          next
            case (Inr v)
            obtain r4 w4 where u: "chroma_update coll mid (Some v) cont
              [(''project_id'', pid), (''agent_id'', aid),
               (''custom_metadata'', serialize_metadata env
                  (case mu_metadata update of Some m \<Rightarrow> m | None \<Rightarrow> metadata existing)),
               (''embedding_provider'', embedding_provider existing),
               (''embedding_model'', embedding_model existing),
               (''created_at'', isoformat env (created_at existing)),
               (''updated_at'', isoformat env now)] w3 = (r4, w4)" by fastforce
            have w': "snd (update_memory env now w pid aid mid update) = w4"
              using g' c \<open>r2 = Inr coll\<close> Some em Inr u
              by (auto simp: update_memory_def Let_def split: sum.splits)
            from chroma_update_entries [OF u, of e' n] assms w'
            have "e' \<in> set (entries_of w n) \<or> (n = coll \<and> e_document e' = cont)"
              using e3 by simp
            then show ?thesis using Some by auto
          qed
        qed
      qed
    qed
  qed
qed


lemma delete_memory_entries:
  "set (entries_of (snd (delete_memory env w pid aid mid)) n) \<subseteq> set (entries_of w n)"
  by (auto simp: delete_memory_def get_or_create_collection_def
        chroma_get_or_create_collection_def chroma_delete_def Let_def next_fault_def
        map_entries_def entries_of_def
        split: option.splits list.splits bool.splits if_splits)

lemma call_tool_store_memory_documents:
  assumes "\<forall>e \<in> set (entries_of w n). \<not> blank (e_document e)"
  shows "\<forall>e \<in> set (entries_of (snd (call_tool_store_memory env new_id now w arguments)) n).
           \<not> blank (e_document e)"
proof (cases "\<exists>mc. snd (call_tool_store_memory env new_id now w arguments)
                      = snd (store_memory env new_id now w mc) \<and> \<not> blank (mc_content mc)")
  case True
  then obtain mc where
    "snd (call_tool_store_memory env new_id now w arguments) = snd (store_memory env new_id now w mc)"
    and "\<not> blank (mc_content mc)" by blast
  then show ?thesis
    using assms store_memory_entries_subset [of env new_id now w mc n] by auto
next
  case False
  then have "snd (call_tool_store_memory env new_id now w arguments) = w"
    by (auto simp: call_tool_store_memory_def split: option.splits sum.splits
          dest: validated_content(1))
  then show ?thesis using assms by simp
qed

lemma call_tool_update_memory_documents:
  assumes "\<forall>e \<in> set (entries_of w n). \<not> blank (e_document e)"
  shows "\<forall>e \<in> set (entries_of (snd (call_tool_update_memory env now w arguments)) n).
           \<not> blank (e_document e)"
proof (cases "MemoryUpdate (arg_content arguments) (arg_metadata arguments)")
  case (Inl err)
  then show ?thesis using assms by (simp add: call_tool_update_memory_def)
next
  case (Inr mu)
  have ok: "\<not> blank c" if "mu_content mu = Some c" for c
    using validated_content(2) [OF Inr that] .
  have kept: "\<forall>e \<in> set (entries_of (snd (update_memory env now w pid aid mid mu)) n).
      \<not> blank (e_document e)" for pid aid mid
  proof
    fix e assume "e \<in> set (entries_of (snd (update_memory env now w pid aid mid mu)) n)"
    from update_memory_entries [OF this] show "\<not> blank (e_document e)"
      using assms ok by auto
  qed
  show ?thesis
    using Inr assms kept
    by (auto simp: call_tool_update_memory_def split: option.splits)
qed

text \<open>
  Claim C9. Blank content (empty, or whitespace only) makes \<^verbatim>\<open>MemoryCreate\<close> and
  \<^verbatim>\<open>MemoryUpdate\<close> fail with a validation error, and so does a \<^verbatim>\<open>MemoryCreate\<close>
  without its project or agent id. The request is rejected before the store is touched:
  the tool call for a store or an update with blank content returns the validation error
  and the store, the log of embed calls included, as it was. Consequently a partition
  whose documents are all non-blank stays so under every store and update request, valid
  or not, and under delete.
\<close>

theorem blank_content_rejected:
  "(blank c \<longrightarrow>
      MemoryCreate pid aid (Some c) md = Inl ValidationError
      \<and> MemoryUpdate (Some c) md' = Inl ValidationError)
   \<and> (pid = None \<or> aid = None \<longrightarrow> MemoryCreate pid aid cont md = Inl ValidationError)
   \<and> (arg_content arguments = Some c \<and> blank c
        \<and> arg_project_id arguments \<noteq> None \<and> arg_agent_id arguments \<noteq> None
      \<longrightarrow> call_tool_store_memory env new_id now w arguments = (Inl ValidationError, w))
   \<and> (arg_content arguments = Some c \<and> blank c
      \<longrightarrow> call_tool_update_memory env now w arguments = (Inl ValidationError, w))
   \<and> ((\<forall>e \<in> set (entries_of w n). \<not> blank (e_document e)) \<longrightarrow>
        (\<forall>e \<in> set (entries_of (snd (call_tool_store_memory env new_id now w arguments)) n).
           \<not> blank (e_document e))
        \<and> (\<forall>e \<in> set (entries_of (snd (call_tool_update_memory env now w arguments)) n).
           \<not> blank (e_document e))
        \<and> (\<forall>e \<in> set (entries_of (snd (delete_memory env w p a i)) n).
           \<not> blank (e_document e)))"
proof (intro conjI impI)
  assume "blank c"
  then show "MemoryCreate pid aid (Some c) md = Inl ValidationError"
    and "MemoryUpdate (Some c) md' = Inl ValidationError"
    by (rule blank_rejected)+
next
  assume "pid = None \<or> aid = None"
  then show "MemoryCreate pid aid cont md = Inl ValidationError"
    by (rule missing_scope_rejected)
next
  assume "arg_content arguments = Some c \<and> blank c
        \<and> arg_project_id arguments \<noteq> None \<and> arg_agent_id arguments \<noteq> None"
  then show "call_tool_store_memory env new_id now w arguments = (Inl ValidationError, w)"
    using call_tool_rejects(1) by blast
next
  assume "arg_content arguments = Some c \<and> blank c"
  then show "call_tool_update_memory env now w arguments = (Inl ValidationError, w)"
    using call_tool_rejects(2) by blast
next
  assume inv: "\<forall>e \<in> set (entries_of w n). \<not> blank (e_document e)"
  show "\<forall>e \<in> set (entries_of (snd (call_tool_store_memory env new_id now w arguments)) n).
           \<not> blank (e_document e)"
    using inv by (rule call_tool_store_memory_documents)
  show "\<forall>e \<in> set (entries_of (snd (call_tool_update_memory env now w arguments)) n).
           \<not> blank (e_document e)"
    using inv by (rule call_tool_update_memory_documents)
  show "\<forall>e \<in> set (entries_of (snd (delete_memory env w p a i)) n). \<not> blank (e_document e)"
    using inv delete_memory_entries [of env w p a i n] by blast
qed

lemma blank_spaces: "blank ''   ''"
  by code_simp

lemma empty_world_documents:
  "\<forall>e \<in> set (entries_of empty_world ''p_p1_a_a1_emb_local''). \<not> blank (e_document e)"
  by (simp add: empty_world_def entries_of_def)


lemma blank_arguments_fields:
  "arg_content blank_arguments = Some ''   '' \<and> blank ''   ''
     \<and> arg_project_id blank_arguments \<noteq> None \<and> arg_agent_id blank_arguments \<noteq> None"
  "arg_content blank_arguments = Some ''   '' \<and> blank ''   ''"
  using blank_spaces by (simp_all add: blank_arguments_def)

theorem blank_content_rejected_witness:
  "blank ''   ''
   \<and> MemoryCreate (Some ''p1'') (Some ''a1'') (Some ''   '') None = Inl ValidationError
   \<and> MemoryUpdate (Some ''   '') None = Inl ValidationError
   \<and> MemoryCreate None (Some ''a1'') (Some ''Use JWT for auth'') None = Inl ValidationError
   \<and> call_tool_store_memory stub_env ''id-1'' 7 empty_world blank_arguments
       = (Inl ValidationError, empty_world)
   \<and> call_tool_update_memory stub_env 7 empty_world blank_arguments
       = (Inl ValidationError, empty_world)
   \<and> list_all (\<lambda>e. \<not> blank (e_document e)) (entries_of empty_world ''p_p1_a_a1_emb_local'')
   \<and> list_all (\<lambda>e. \<not> blank (e_document e))
        (entries_of (snd (call_tool_store_memory stub_env ''id-1'' 7 empty_world good_arguments))
           ''p_p1_a_a1_emb_local'')"
proof -
  note t = blank_content_rejected [where c = "''   ''" and pid = "Some ''p1''"
      and aid = "Some ''a1''" and md = None and md' = None and arguments = blank_arguments
      and env = stub_env and new_id = "''id-1''" and now = 7 and w = empty_world]
  note t' = blank_content_rejected [where pid = None and aid = "Some ''a1''"
      and cont = "Some ''Use JWT for auth''" and md = None and arguments = good_arguments
      and env = stub_env and new_id = "''id-1''" and now = 7 and w = empty_world
      and n = "''p_p1_a_a1_emb_local''"]
  have c1: "MemoryCreate (Some ''p1'') (Some ''a1'') (Some ''   '') None = Inl ValidationError
      \<and> MemoryUpdate (Some ''   '') None = Inl ValidationError"
    using t [THEN conjunct1] blank_spaces by blast
  have c2: "MemoryCreate None (Some ''a1'') (Some ''Use JWT for auth'') None = Inl ValidationError"
    using t' [THEN conjunct2, THEN conjunct1] by blast
  have c3: "call_tool_store_memory stub_env ''id-1'' 7 empty_world blank_arguments
       = (Inl ValidationError, empty_world)"
    using t [THEN conjunct2, THEN conjunct2, THEN conjunct1] blank_arguments_fields(1) by blast
  have c4: "call_tool_update_memory stub_env 7 empty_world blank_arguments
       = (Inl ValidationError, empty_world)"
    using t [THEN conjunct2, THEN conjunct2, THEN conjunct2, THEN conjunct1]
      blank_arguments_fields(2) by blast
  have c5: "\<forall>e \<in> set (entries_of
        (snd (call_tool_store_memory stub_env ''id-1'' 7 empty_world good_arguments))
           ''p_p1_a_a1_emb_local''). \<not> blank (e_document e)"
    using t' [THEN conjunct2, THEN conjunct2, THEN conjunct2, THEN conjunct2]
      empty_world_documents by blast
  show ?thesis
    using blank_spaces c1 c2 c3 c4 c5 empty_world_documents
    by (simp only: list_all_iff)
qed

end
